theory Spec2Isabelle
  imports Main "HOL-Library.Word" "HOL-Library.Multiset"
begin

section \<open>Strings and built-ins of the host language\<close>

text \<open>
  A JavaScript string is a sequence of 16-bit code units. Literals of the source are
  written through \<open>ascii\<close>, which widens each byte of an Isabelle string literal.
\<close>

type_synonym jschar = "16 word"
type_synonym jsstring = "jschar list"

definition ascii :: "string \<Rightarrow> jsstring" where
  "ascii s = map (\<lambda>c. of_nat (of_char c)) s"

text \<open>
  \<^verbatim>\<open>String.prototype.trim\<close> removes leading and trailing white space and line
  terminators. The code units below are ECMAScript's \<open>WhiteSpace\<close> and
  \<open>LineTerminator\<close> productions: TAB, LF, VT, FF, CR, SP, NBSP, the space separators
  of Unicode, LS, PS and the byte order mark.
\<close>

definition isWhiteSpace :: "jschar \<Rightarrow> bool" where
  "isWhiteSpace c =
     (c = 0x0009 \<or> c = 0x000A \<or> c = 0x000B \<or> c = 0x000C \<or> c = 0x000D \<or> c = 0x0020 \<or>
      c = 0x00A0 \<or> c = 0x1680 \<or> (0x2000 \<le> c \<and> c \<le> 0x200A) \<or> c = 0x2028 \<or>
      c = 0x2029 \<or> c = 0x202F \<or> c = 0x205F \<or> c = 0x3000 \<or> c = 0xFEFF)"

definition trim :: "jsstring \<Rightarrow> jsstring" where
  "trim s = rev (dropWhile isWhiteSpace (rev (dropWhile isWhiteSpace s)))"

text \<open>
  \<^verbatim>\<open>Number.prototype.toString\<close> on an integer: its decimal digits, with a minus sign
  for a negative number. \<^verbatim>\<open>Date.now()\<close> returns an integer number of milliseconds.
\<close>

fun digits10 :: "nat \<Rightarrow> jsstring" where
  "digits10 n =
     (if n < 10 then [of_nat (48 + n)] else digits10 (n div 10) @ [of_nat (48 + n mod 10)])"

declare digits10.simps [simp del]

definition toString :: "int \<Rightarrow> jsstring" where
  "toString i = (if i < 0 then 0x002D # digits10 (nat (- i)) else digits10 (nat i))"

text \<open>
  \<^verbatim>\<open>Array.prototype.findIndex\<close>: the index of the first element that satisfies the
  predicate, and \<open>-1\<close> when there is none.
\<close>

fun findIndex_from :: "('a \<Rightarrow> bool) \<Rightarrow> int \<Rightarrow> 'a list \<Rightarrow> int" where
  "findIndex_from P k [] = - 1"
| "findIndex_from P k (x # xs) = (if P x then k else findIndex_from P (k + 1) xs)"

definition findIndex :: "('a \<Rightarrow> bool) \<Rightarrow> 'a list \<Rightarrow> int" where
  "findIndex P xs = findIndex_from P 0 xs"

text \<open>
  \<^verbatim>\<open>Array.prototype.splice(i, 1)\<close> for an index inside the array: the element at
  \<open>i\<close> is removed.
\<close>

definition splice1 :: "int \<Rightarrow> 'a list \<Rightarrow> 'a list" where
  "splice1 i xs = take (nat i) xs @ drop (nat i + 1) xs"

text \<open>
  \<^verbatim>\<open>Array.prototype.sort(cmp)\<close> is a stable sort: \<open>a\<close> stays before \<open>b\<close> unless
  \<open>cmp a b > 0\<close>. Insertion from the right computes the stable order.
\<close>

fun insert_cmp :: "('a \<Rightarrow> 'a \<Rightarrow> int) \<Rightarrow> 'a \<Rightarrow> 'a list \<Rightarrow> 'a list" where
  "insert_cmp cmp x [] = [x]"
| "insert_cmp cmp x (y # ys) = (if cmp x y \<le> 0 then x # y # ys else y # insert_cmp cmp x ys)"

fun sort_cmp :: "('a \<Rightarrow> 'a \<Rightarrow> int) \<Rightarrow> 'a list \<Rightarrow> 'a list" where
  "sort_cmp cmp [] = []"
| "sort_cmp cmp (x # xs) = insert_cmp cmp x (sort_cmp cmp xs)"

section \<open>Types of the application (types/todo)\<close>

text \<open>
  A \<^verbatim>\<open>Date\<close> is its time value, the milliseconds since the epoch; every date of the
  program comes from \<^verbatim>\<open>new Date()\<close> or from a valid literal, so none is invalid.
  An optional property is an \<open>option\<close>.
\<close>

record Todo =
  id_todo :: jsstring
  title :: jsstring
  description :: "jsstring option"
  completed :: bool
  createdAt :: int
  updatedAt :: int

record CreateTodoInput =
  title_c :: jsstring
  description_c :: "jsstring option"

text \<open>
  An object spread copies every own property of its argument, also one whose value is
  \<^verbatim>\<open>undefined\<close>: \<^verbatim>\<open>{description: undefined}\<close> overwrites the description, an
  input without the key does not. The edit form of a task passes
  \<^verbatim>\<open>description: editDescription.trim() || undefined\<close> (\<open>handleSaveEdit\<close> below), so
  the description of an update has three shapes. \<open>title\<close> and \<open>completed\<close> of a \<open>Todo\<close> are not optional:
  their keys are absent or carry a value.
\<close>

datatype 'a prop_u = Absent | Undefined | Given 'a

record UpdateTodoInput =
  title_u :: "jsstring option"
  description_u :: "jsstring prop_u"
  completed_u :: "bool option"

record 'a ApiResponse =
  data :: 'a
  message :: jsstring
  success :: bool

datatype ErrorCode = FETCH_ERROR | CREATE_ERROR | UPDATE_ERROR | DELETE_ERROR | NOT_FOUND

record ApiError =
  message_e :: jsstring
  code :: ErrorCode

text \<open>The members of the enum \<open>TodoFilter\<close>; \<open>ALL\<close> alone is a quantifier of HOL.\<close>

datatype TodoFilter = Filter_ALL | Filter_ACTIVE | Filter_COMPLETED

datatype Operation = Op_create | Op_update | Op_delete | Op_fetch

record LoadingState =
  isLoading :: bool
  operation :: "Operation option"
  targetId :: "jsstring option"

section \<open>The mock backend (services/todoApi)\<close>

text \<open>
  The module state is the array \<open>mockTodos\<close>; its three initial tasks are
  \<open>todo_1\<close>, \<open>todo_2\<close> and \<open>todo_3\<close>. Each method first waits, then draws
  \<^verbatim>\<open>Math.random() < 0.1\<close>; the draw is the argument \<open>fl\<close>. Clock readings are
  arguments too. A method returns the rejection or the response, and the array after it.
\<close>

definition todo_1 :: Todo where
  "todo_1 =
     \<lparr>id_todo = ascii ''1'', title = ascii ''Complete project documentation'',
      description = Some (ascii
        ''Write comprehensive README and code comments for the portfolio project''),
      completed = False, createdAt = 1705312800000, updatedAt = 1705312800000\<rparr>"

definition todo_2 :: Todo where
  "todo_2 =
     \<lparr>id_todo = ascii ''2'', title = ascii ''Review TypeScript best practices'',
      description = Some (ascii
        ''Study advanced TypeScript patterns for better code organization''),
      completed = True, createdAt = 1705242600000, updatedAt = 1705310100000\<rparr>"

definition todo_3 :: Todo where
  "todo_3 =
     \<lparr>id_todo = ascii ''3'', title = ascii ''Design system implementation'',
      description = Some (ascii ''Create consistent UI components with Tailwind CSS''),
      completed = False, createdAt = 1705394700000, updatedAt = 1705394700000\<rparr>"

definition mockTodos_init :: "Todo list" where
  "mockTodos_init = [todo_1, todo_2, todo_3]"

definition getAllTodos :: "bool \<Rightarrow> Todo list \<Rightarrow> ApiError + Todo list ApiResponse" where
  "getAllTodos fl store =
     (if fl then
        Inl \<lparr>message_e = ascii ''Failed to fetch todos. Please check your connection.'',
             code = FETCH_ERROR\<rparr>
      else
        Inr \<lparr>data = sort_cmp (\<lambda>a b. createdAt b - createdAt a) store,
             message = ascii ''Todos fetched successfully'', success = True\<rparr>)"

text \<open>
  \<open>createTodo\<close> reads the clock three times: \<^verbatim>\<open>Date.now()\<close> for the id and
  \<^verbatim>\<open>new Date()\<close> for each timestamp. \<^verbatim>\<open>x?.trim() || ''\<close> is the empty string when
  \<open>x\<close> is absent or trims to the empty string.
\<close>

definition createTodo ::
  "bool \<Rightarrow> int \<Rightarrow> int \<Rightarrow> int \<Rightarrow> CreateTodoInput \<Rightarrow> Todo list
     \<Rightarrow> (ApiError + Todo ApiResponse) \<times> Todo list" where
  "createTodo fl now_id now_c now_u input store =
     (if fl then
        (Inl \<lparr>message_e = ascii ''Failed to create todo. Please try again.'',
              code = CREATE_ERROR\<rparr>, store)
      else
        let newTodo =
              \<lparr>id_todo = toString now_id,
               title = trim (title_c input),
               description =
                 Some (case description_c input of
                         None \<Rightarrow> []
                       | Some d \<Rightarrow> (if trim d = [] then [] else trim d)),
               completed = False,
               createdAt = now_c,
               updatedAt = now_u\<rparr>
        in (Inr \<lparr>data = newTodo, message = ascii ''Todo created successfully'',
                 success = True\<rparr>,
            store @ [newTodo]))"

text \<open>The spread \<^verbatim>\<open>{...todo, ...input, updatedAt: new Date()}\<close>.\<close>

definition merge_input :: "Todo \<Rightarrow> UpdateTodoInput \<Rightarrow> int \<Rightarrow> Todo" where
  "merge_input t input now =
     t\<lparr>title := (case title_u input of None \<Rightarrow> title t | Some x \<Rightarrow> x),
       description :=
         (case description_u input of
            Absent \<Rightarrow> description t | Undefined \<Rightarrow> None | Given d \<Rightarrow> Some d),
       completed := (case completed_u input of None \<Rightarrow> completed t | Some c \<Rightarrow> c),
       updatedAt := now\<rparr>"

definition updateTodo ::
  "bool \<Rightarrow> int \<Rightarrow> jsstring \<Rightarrow> UpdateTodoInput \<Rightarrow> Todo list
     \<Rightarrow> (ApiError + Todo ApiResponse) \<times> Todo list" where
  "updateTodo fl now i input store =
     (if fl then
        (Inl \<lparr>message_e = ascii ''Failed to update todo. Please try again.'',
              code = UPDATE_ERROR\<rparr>, store)
      else
        let todoIndex = findIndex (\<lambda>todo. id_todo todo = i) store in
        if todoIndex = - 1 then
          (Inl \<lparr>message_e = ascii ''Todo not found'', code = NOT_FOUND\<rparr>, store)
        else
          let updatedTodo = merge_input (store ! nat todoIndex) input now
          in (Inr \<lparr>data = updatedTodo, message = ascii ''Todo updated successfully'',
                   success = True\<rparr>,
              store[nat todoIndex := updatedTodo]))"

definition deleteTodo ::
  "bool \<Rightarrow> jsstring \<Rightarrow> Todo list \<Rightarrow> (ApiError + unit ApiResponse) \<times> Todo list" where
  "deleteTodo fl i store =
     (if fl then
        (Inl \<lparr>message_e = ascii ''Failed to delete todo. Please try again.'',
              code = DELETE_ERROR\<rparr>, store)
      else
        let todoIndex = findIndex (\<lambda>todo. id_todo todo = i) store in
        if todoIndex = - 1 then
          (Inl \<lparr>message_e = ascii ''Todo not found'', code = NOT_FOUND\<rparr>, store)
        else
          (Inr \<lparr>data = (), message = ascii ''Todo deleted successfully'', success = True\<rparr>,
           splice1 todoIndex store))"

section \<open>The page component (pages/Index)\<close>

text \<open>
  The state of the page and of the backend module, in one record. \<open>calls\<close> is a log of
  the requests the backend received, kept for the properties that speak of a request being
  made or not; the program has no such variable. \<open>toasts\<close> logs the notifications
  handed to the toast hook.

  An \<^verbatim>\<open>async\<close> handler is modelled by the state in which it has settled, for a
  handler that runs alone: the state updates before the \<^verbatim>\<open>await\<close>, the backend
  call, the updates of the \<^verbatim>\<open>try\<close> or \<^verbatim>\<open>catch\<close> branch and those of
  \<^verbatim>\<open>finally\<close>, in that order. A functional update \<^verbatim>\<open>setTodos(prev => ...)\<close>
  is applied to the current collection. A handler that re-throws returns the error.
\<close>

record Toast =
  title_t :: jsstring
  description_t :: jsstring
  variant :: jsstring

datatype ApiCall =
  GetAllTodos
| CreateTodo CreateTodoInput
| UpdateTodo jsstring UpdateTodoInput
| DeleteTodo jsstring

record World =
  mockTodos :: "Todo list"
  calls :: "ApiCall list"
  todos :: "Todo list"
  filter_sel :: TodoFilter
  loadingState :: LoadingState
  isInitialLoading :: bool
  toasts :: "Toast list"

definition notLoading :: LoadingState where
  "notLoading = \<lparr>isLoading = False, operation = None, targetId = None\<rparr>"

definition World_init :: World where
  "World_init =
     \<lparr>mockTodos = mockTodos_init, calls = [], todos = [], filter_sel = Filter_ALL,
      loadingState = notLoading, isInitialLoading = True, toasts = []\<rparr>"

definition toast :: "string \<Rightarrow> jsstring \<Rightarrow> string \<Rightarrow> World \<Rightarrow> World" where
  "toast t d v w =
     w\<lparr>toasts := toasts w @ [\<lparr>title_t = ascii t, description_t = d, variant = ascii v\<rparr>]\<rparr>"

definition api_getAllTodos ::
  "bool \<Rightarrow> World \<Rightarrow> (ApiError + Todo list ApiResponse) \<times> World" where
  "api_getAllTodos fl w = (getAllTodos fl (mockTodos w), w\<lparr>calls := calls w @ [GetAllTodos]\<rparr>)"

definition api_createTodo ::
  "bool \<Rightarrow> int \<Rightarrow> int \<Rightarrow> int \<Rightarrow> CreateTodoInput \<Rightarrow> World
     \<Rightarrow> (ApiError + Todo ApiResponse) \<times> World" where
  "api_createTodo fl now_id now_c now_u input w =
     (case createTodo fl now_id now_c now_u input (mockTodos w) of
        (r, store) \<Rightarrow> (r, w\<lparr>mockTodos := store, calls := calls w @ [CreateTodo input]\<rparr>))"

definition api_updateTodo ::
  "bool \<Rightarrow> int \<Rightarrow> jsstring \<Rightarrow> UpdateTodoInput \<Rightarrow> World
     \<Rightarrow> (ApiError + Todo ApiResponse) \<times> World" where
  "api_updateTodo fl now i input w =
     (case updateTodo fl now i input (mockTodos w) of
        (r, store) \<Rightarrow> (r, w\<lparr>mockTodos := store, calls := calls w @ [UpdateTodo i input]\<rparr>))"

definition api_deleteTodo ::
  "bool \<Rightarrow> jsstring \<Rightarrow> World \<Rightarrow> (ApiError + unit ApiResponse) \<times> World" where
  "api_deleteTodo fl i w =
     (case deleteTodo fl i (mockTodos w) of
        (r, store) \<Rightarrow> (r, w\<lparr>mockTodos := store, calls := calls w @ [DeleteTodo i]\<rparr>))"

definition fetchTodos :: "bool \<Rightarrow> World \<Rightarrow> World" where
  "fetchTodos fl w =
     (case api_getAllTodos fl (w\<lparr>isInitialLoading := True\<rparr>) of
        (Inr response, w') \<Rightarrow> (w'\<lparr>todos := data response\<rparr>)\<lparr>isInitialLoading := False\<rparr>
      | (Inl error, w') \<Rightarrow>
          (toast ''Error'' (message_e error) ''destructive'' w')\<lparr>isInitialLoading := False\<rparr>)"

definition handleCreateTodo ::
  "bool \<Rightarrow> int \<Rightarrow> int \<Rightarrow> int \<Rightarrow> CreateTodoInput \<Rightarrow> World \<Rightarrow> ApiError option \<times> World" where
  "handleCreateTodo fl now_id now_c now_u input w =
     (case api_createTodo fl now_id now_c now_u input
             (w\<lparr>loadingState :=
                  \<lparr>isLoading = True, operation = Some Op_create, targetId = None\<rparr>\<rparr>) of
        (Inr response, w') \<Rightarrow>
          (None,
           (toast ''Success'' (ascii ''Task created successfully!'') ''default''
              (w'\<lparr>todos := data response # todos w'\<rparr>))\<lparr>loadingState := notLoading\<rparr>)
      | (Inl error, w') \<Rightarrow>
          (Some error,
           (toast ''Error'' (message_e error) ''destructive'' w')\<lparr>loadingState := notLoading\<rparr>))"

text \<open>
  The success notification of an update is shown when \<^verbatim>\<open>input.title || input.description\<close>
  is truthy: one of the two is a non-empty string.
\<close>

definition manualEdit :: "UpdateTodoInput \<Rightarrow> bool" where
  "manualEdit input =
     ((case title_u input of None \<Rightarrow> False | Some x \<Rightarrow> x \<noteq> []) \<or>
      (case description_u input of Given d \<Rightarrow> d \<noteq> [] | _ \<Rightarrow> False))"

definition handleUpdateTodo ::
  "bool \<Rightarrow> int \<Rightarrow> jsstring \<Rightarrow> UpdateTodoInput \<Rightarrow> World \<Rightarrow> ApiError option \<times> World" where
  "handleUpdateTodo fl now i input w =
     (case api_updateTodo fl now i input
             (w\<lparr>loadingState :=
                  \<lparr>isLoading = True, operation = Some Op_update, targetId = Some i\<rparr>\<rparr>) of
        (Inr response, w') \<Rightarrow>
          (let w'' = w'\<lparr>todos := map (\<lambda>todo. if id_todo todo = i then data response else todo)
                                    (todos w')\<rparr>
           in (None,
               (if manualEdit input
                then toast ''Success'' (ascii ''Task updated successfully!'') ''default'' w''
                else w'')\<lparr>loadingState := notLoading\<rparr>))
      | (Inl error, w') \<Rightarrow>
          (Some error,
           (toast ''Error'' (message_e error) ''destructive'' w')\<lparr>loadingState := notLoading\<rparr>))"

definition handleDeleteTodo :: "bool \<Rightarrow> jsstring \<Rightarrow> World \<Rightarrow> World" where
  "handleDeleteTodo fl i w =
     (case api_deleteTodo fl i
             (w\<lparr>loadingState :=
                  \<lparr>isLoading = True, operation = Some Op_delete, targetId = Some i\<rparr>\<rparr>) of
        (Inr response, w') \<Rightarrow>
          (toast ''Success'' (ascii ''Task deleted successfully!'') ''default''
             (w'\<lparr>todos := filter (\<lambda>todo. id_todo todo \<noteq> i) (todos w')\<rparr>))
          \<lparr>loadingState := notLoading\<rparr>
      | (Inl error, w') \<Rightarrow>
          (toast ''Error'' (message_e error) ''destructive'' w')\<lparr>loadingState := notLoading\<rparr>)"

text \<open>
  \<^verbatim>\<open>Promise.all(completedTodos.map(todo => todoApi.deleteTodo(todo.id)))\<close>: every
  request is issued, in the order of the array; all wait the same delay, so their bodies
  run in that order, each with a draw of its own (\<open>fls k\<close> for the \<open>k\<close>-th). No
  request is cancelled when another one fails. The promise is fulfilled when every
  request succeeded.
\<close>

fun api_deleteTodos ::
  "(nat \<Rightarrow> bool) \<Rightarrow> nat \<Rightarrow> jsstring list \<Rightarrow> World
     \<Rightarrow> (ApiError + unit ApiResponse) list \<times> World" where
  "api_deleteTodos fls k [] w = ([], w)"
| "api_deleteTodos fls k (i # ids) w =
     (case api_deleteTodo (fls k) i w of
        (r, w') \<Rightarrow> (case api_deleteTodos fls (Suc k) ids w' of (rs, w'') \<Rightarrow> (r # rs, w'')))"

definition fulfilled :: "'e + 'a \<Rightarrow> bool" where
  "fulfilled r = (case r of Inr x \<Rightarrow> True | Inl e \<Rightarrow> False)"

definition handleBulkDelete :: "(nat \<Rightarrow> bool) \<Rightarrow> World \<Rightarrow> World" where
  "handleBulkDelete fls w =
     (let completedTodos = filter completed (todos w) in
      case api_deleteTodos fls 0 (map id_todo completedTodos)
             (w\<lparr>loadingState :=
                  \<lparr>isLoading = True, operation = Some Op_delete, targetId = None\<rparr>\<rparr>) of
        (rs, w') \<Rightarrow>
          (if list_all fulfilled rs then
             toast ''Success''
               (toString (int (length completedTodos)) @ ascii '' completed task(s) deleted!'')
               ''default''
               (w'\<lparr>todos := filter (\<lambda>todo. \<not> completed todo) (todos w')\<rparr>)
           else
             toast ''Error'' (ascii ''Failed to delete completed tasks. Please try again.'')
               ''destructive'' w')
          \<lparr>loadingState := notLoading\<rparr>)"

text \<open>The page after its initial fetch succeeded.\<close>

definition World_loaded :: World where
  "World_loaded = fetchTodos False World_init"

text \<open>
  The descriptor of the operation in flight is held in two variables of the page:
  \<open>loadingState\<close> for the mutations and \<open>isInitialLoading\<close> for the fetch. No
  operation is in flight when both are clear.
\<close>

definition idle :: "World \<Rightarrow> bool" where
  "idle w = (loadingState w = notLoading \<and> \<not> isInitialLoading w)"

text \<open>\<^verbatim>\<open>onFilterChange={setFilter}\<close>: the filter is page state and touches nothing else.\<close>

definition setFilter :: "TodoFilter \<Rightarrow> World \<Rightarrow> World" where
  "setFilter f w = w\<lparr>filter_sel := f\<rparr>"

text \<open>
  The collection of the page mirrors the backend: no two tasks of the collection, and no
  two stored tasks, share an id, and a task of the collection whose id is stored is the
  stored task.
\<close>

definition consistent :: "World \<Rightarrow> bool" where
  "consistent w =
     (distinct (map id_todo (todos w)) \<and> distinct (map id_todo (mockTodos w)) \<and>
      (\<forall>t \<in> set (todos w). \<forall>b \<in> set (mockTodos w). id_todo b = id_todo t \<longrightarrow> b = t))"

text \<open>
  The states the page reaches from its initial state when its handlers run one at a time,
  with any draws of the backend and any clock readings, provided the id the backend
  derives from the clock for a new task is not in use.
\<close>

inductive reachable :: "World \<Rightarrow> bool" where
  reachable_init: "reachable World_init"
| reachable_fetch: "reachable w \<Longrightarrow> reachable (fetchTodos fl w)"
| reachable_create:
    "reachable w \<Longrightarrow> toString now_id \<notin> id_todo ` (set (todos w) \<union> set (mockTodos w)) \<Longrightarrow>
       reachable (snd (handleCreateTodo fl now_id now_c now_u input w))"
| reachable_update: "reachable w \<Longrightarrow> reachable (snd (handleUpdateTodo fl now i input w))"
| reachable_delete: "reachable w \<Longrightarrow> reachable (handleDeleteTodo fl i w)"
| reachable_bulk: "reachable w \<Longrightarrow> reachable (handleBulkDelete fls w)"
| reachable_filter: "reachable w \<Longrightarrow> reachable (setFilter f w)"

section \<open>The entry form (AddToDoForm), the task item (ToDoItem) and the list (ToDoList)\<close>

record AddToDoForm =
  title_f :: jsstring
  description_f :: jsstring
  isExpanded :: bool

text \<open>
  \<open>handleSubmit\<close> returns at once when the title trims to the empty string
  (\<^verbatim>\<open>!title.trim()\<close>). Otherwise it awaits \<open>onSubmit\<close>, the page's
  \<open>handleCreateTodo\<close>, and resets the form unless that promise was rejected.
\<close>

definition handleSubmit ::
  "(CreateTodoInput \<Rightarrow> World \<Rightarrow> ApiError option \<times> World) \<Rightarrow> AddToDoForm \<Rightarrow> World
     \<Rightarrow> AddToDoForm \<times> World" where
  "handleSubmit onSubmit form w =
     (if trim (title_f form) = [] then (form, w)
      else
        case onSubmit \<lparr>title_c = trim (title_f form),
                       description_c =
                         (if trim (description_f form) = [] then None
                          else Some (trim (description_f form)))\<rparr> w of
          (None, w') \<Rightarrow> (\<lparr>title_f = [], description_f = [], isExpanded = False\<rparr>, w')
        | (Some error, w') \<Rightarrow> (form, w'))"

text \<open>
  The task item (ToDoItem). Its two handlers build the inputs of an update: the checkbox
  sends \<^verbatim>\<open>{completed: !todo.completed}\<close>, the edit form the trimmed title and
  \<^verbatim>\<open>description: editDescription.trim() || undefined\<close>. An item is loading when the
  page is loading and the target is its id
  (\<^verbatim>\<open>isLoading && loadingOperation === todo.id\<close>).
\<close>

record ToDoItem =
  isEditing :: bool
  editTitle :: jsstring
  editDescription :: jsstring

definition isItemLoading :: "Todo \<Rightarrow> World \<Rightarrow> bool" where
  "isItemLoading todo w =
     (isLoading (loadingState w) \<and> targetId (loadingState w) = Some (id_todo todo))"

definition handleToggleComplete ::
  "(jsstring \<Rightarrow> UpdateTodoInput \<Rightarrow> World \<Rightarrow> ApiError option \<times> World) \<Rightarrow> Todo \<Rightarrow> World
     \<Rightarrow> World" where
  "handleToggleComplete onUpdate todo w =
     (if isItemLoading todo w then w
      else snd (onUpdate (id_todo todo)
                  \<lparr>title_u = None, description_u = Absent,
                   completed_u = Some (\<not> completed todo)\<rparr> w))"

definition handleSaveEdit ::
  "(jsstring \<Rightarrow> UpdateTodoInput \<Rightarrow> World \<Rightarrow> ApiError option \<times> World) \<Rightarrow> Todo \<Rightarrow> ToDoItem
     \<Rightarrow> World \<Rightarrow> ToDoItem \<times> World" where
  "handleSaveEdit onUpdate todo item w =
     (if trim (editTitle item) = [] then (item, w)
      else
        case onUpdate (id_todo todo)
               \<lparr>title_u = Some (trim (editTitle item)),
                description_u =
                  (if trim (editDescription item) = [] then Undefined
                   else Given (trim (editDescription item))),
                completed_u = None\<rparr> w of
          (None, w') \<Rightarrow> (item\<lparr>isEditing := False\<rparr>, w')
        | (Some error, w') \<Rightarrow> (item, w'))"

text \<open>The list shows \<open>filteredTodos\<close>, computed from the props \<open>todos\<close> and \<open>filter\<close>.\<close>

definition filteredTodos :: "Todo list \<Rightarrow> TodoFilter \<Rightarrow> Todo list" where
  "filteredTodos ts f =
     filter (\<lambda>todo. case f of Filter_ACTIVE \<Rightarrow> \<not> completed todo
                            | Filter_COMPLETED \<Rightarrow> completed todo
                            | _ \<Rightarrow> True) ts"

section \<open>Facts about the built-ins\<close>

lemma findIndex_from_none: "(findIndex_from P k xs = - 1) = (\<forall>x \<in> set xs. \<not> P x)" if "0 \<le> k"
  using that
proof (induction xs arbitrary: k)
  case Nil
  then show ?case by simp
next
  case (Cons x xs)
  have "0 \<le> k + 1" using Cons.prems by simp
  from Cons.IH [OF this] Cons.prems show ?case by auto
qed

lemma findIndex_none: "(findIndex P xs = - 1) = (\<forall>x \<in> set xs. \<not> P x)"
  unfolding findIndex_def by (rule findIndex_from_none) simp

lemma findIndex_from_takeWhile:
  "findIndex_from P k xs =
     (if \<exists>x \<in> set xs. P x then k + int (length (takeWhile (\<lambda>x. \<not> P x) xs)) else - 1)"
  by (induction xs arbitrary: k) auto

lemma findIndex_takeWhile:
  assumes "findIndex P xs \<noteq> - 1"
  shows "nat (findIndex P xs) = length (takeWhile (\<lambda>x. \<not> P x) xs)"
proof -
  from assms have "\<exists>x \<in> set xs. P x" by (simp add: findIndex_none)
  then show ?thesis by (simp add: findIndex_def findIndex_from_takeWhile)
qed

lemma length_takeWhile_not_less:
  assumes "\<exists>x \<in> set xs. P x"
  shows "length (takeWhile (\<lambda>x. \<not> P x) xs) < length xs"
proof -
  let ?n = "length (takeWhile (\<lambda>x. \<not> P x) xs)"
  have "?n \<noteq> length xs"
  proof
    assume "?n = length xs"
    then have "takeWhile (\<lambda>x. \<not> P x) xs = xs"
      using takeWhile_eq_take [of "\<lambda>x. \<not> P x" xs] by simp
    with assms show False by simp
  qed
  moreover have "?n \<le> length xs" by (rule length_takeWhile_le)
  ultimately show ?thesis by simp
qed

lemma findIndex_found:
  assumes "findIndex P xs \<noteq> - 1"
  shows "nat (findIndex P xs) < length xs" and "P (xs ! nat (findIndex P xs))"
proof -
  let ?n = "length (takeWhile (\<lambda>x. \<not> P x) xs)"
  from assms have ex: "\<exists>x \<in> set xs. P x" by (simp add: findIndex_none)
  have n: "nat (findIndex P xs) = ?n" by (rule findIndex_takeWhile [OF assms])
  have lt: "?n < length xs" by (rule length_takeWhile_not_less [OF ex])
  show "nat (findIndex P xs) < length xs" using n lt by simp
  from nth_length_takeWhile [OF lt] show "P (xs ! nat (findIndex P xs))" using n by simp
qed

lemma splice1_findIndex:
  assumes "findIndex P xs \<noteq> - 1"
  shows "splice1 (findIndex P xs) xs =
           takeWhile (\<lambda>x. \<not> P x) xs @ tl (dropWhile (\<lambda>x. \<not> P x) xs)"
proof -
  let ?n = "length (takeWhile (\<lambda>x. \<not> P x) xs)"
  have n: "nat (findIndex P xs) = ?n" by (rule findIndex_takeWhile [OF assms])
  have "take ?n xs = takeWhile (\<lambda>x. \<not> P x) xs"
    by (rule takeWhile_eq_take [symmetric])
  moreover have "drop (?n + 1) xs = tl (dropWhile (\<lambda>x. \<not> P x) xs)"
    by (simp add: dropWhile_eq_drop [of "\<lambda>x. \<not> P x" xs] tl_drop drop_Suc)
  ultimately show ?thesis by (simp add: splice1_def n)
qed

lemma filter_splice1_findIndex:
  assumes "findIndex P xs \<noteq> - 1"
  shows "filter (\<lambda>x. \<not> P x) (splice1 (findIndex P xs) xs) = filter (\<lambda>x. \<not> P x) xs"
proof -
  let ?d = "dropWhile (\<lambda>x. \<not> P x) xs"
  from assms have "\<exists>x \<in> set xs. P x" by (simp add: findIndex_none)
  then have "?d \<noteq> []" by (simp add: dropWhile_eq_Nil_conv)
  then have d: "?d = hd ?d # tl ?d" by simp
  have "P (hd ?d)" using \<open>?d \<noteq> []\<close> hd_dropWhile [of "\<lambda>x. \<not> P x" xs] by simp
  then have "filter (\<lambda>x. \<not> P x) ?d = filter (\<lambda>x. \<not> P x) (tl ?d)"
    by (subst d) simp
  moreover have "filter (\<lambda>x. \<not> P x) xs =
      filter (\<lambda>x. \<not> P x) (takeWhile (\<lambda>x. \<not> P x) xs) @ filter (\<lambda>x. \<not> P x) ?d"
    by (simp flip: filter_append)
  ultimately have "filter (\<lambda>x. \<not> P x) xs =
      filter (\<lambda>x. \<not> P x) (takeWhile (\<lambda>x. \<not> P x) xs @ tl ?d)"
    by simp
  then show ?thesis by (simp add: splice1_findIndex [OF assms])
qed

lemma set_insert_cmp [simp]: "set (insert_cmp cmp x xs) = insert x (set xs)"
  by (induction xs) auto

lemma mset_insert_cmp [simp]: "mset (insert_cmp cmp x xs) = add_mset x (mset xs)"
  by (induction xs) auto

lemma mset_sort_cmp [simp]: "mset (sort_cmp cmp xs) = mset xs"
  by (induction xs) auto

lemma sorted_insert_cmp_createdAt:
  "sorted_wrt (\<lambda>a b. createdAt b \<le> createdAt a) xs \<Longrightarrow>
   sorted_wrt (\<lambda>a b. createdAt b \<le> createdAt a)
     (insert_cmp (\<lambda>a b. createdAt b - createdAt a) x xs)"
  by (induction xs) auto

lemma sorted_sort_cmp_createdAt:
  "sorted_wrt (\<lambda>a b. createdAt b \<le> createdAt a)
     (sort_cmp (\<lambda>a b. createdAt b - createdAt a) xs)"
  by (induction xs) (auto intro: sorted_insert_cmp_createdAt)

section \<open>What a backend call and a notification leave unchanged\<close>

lemma toast_fields [simp]:
  "todos (toast t d v w) = todos w"
  "mockTodos (toast t d v w) = mockTodos w"
  "calls (toast t d v w) = calls w"
  "loadingState (toast t d v w) = loadingState w"
  "isInitialLoading (toast t d v w) = isInitialLoading w"
  "filter_sel (toast t d v w) = filter_sel w"
  by (simp_all add: toast_def)

lemma api_createTodo_fields [simp]:
  "fst (api_createTodo fl a b c input w) = fst (createTodo fl a b c input (mockTodos w))"
  "mockTodos (snd (api_createTodo fl a b c input w)) = snd (createTodo fl a b c input (mockTodos w))"
  "calls (snd (api_createTodo fl a b c input w)) = calls w @ [CreateTodo input]"
  "todos (snd (api_createTodo fl a b c input w)) = todos w"
  "loadingState (snd (api_createTodo fl a b c input w)) = loadingState w"
  "isInitialLoading (snd (api_createTodo fl a b c input w)) = isInitialLoading w"
  by (simp_all add: api_createTodo_def split: prod.splits)

lemma api_updateTodo_fields [simp]:
  "fst (api_updateTodo fl now i input w) = fst (updateTodo fl now i input (mockTodos w))"
  "mockTodos (snd (api_updateTodo fl now i input w)) = snd (updateTodo fl now i input (mockTodos w))"
  "calls (snd (api_updateTodo fl now i input w)) = calls w @ [UpdateTodo i input]"
  "todos (snd (api_updateTodo fl now i input w)) = todos w"
  "loadingState (snd (api_updateTodo fl now i input w)) = loadingState w"
  "isInitialLoading (snd (api_updateTodo fl now i input w)) = isInitialLoading w"
  by (simp_all add: api_updateTodo_def split: prod.splits)

lemma api_deleteTodo_fields [simp]:
  "fst (api_deleteTodo fl i w) = fst (deleteTodo fl i (mockTodos w))"
  "mockTodos (snd (api_deleteTodo fl i w)) = snd (deleteTodo fl i (mockTodos w))"
  "calls (snd (api_deleteTodo fl i w)) = calls w @ [DeleteTodo i]"
  "todos (snd (api_deleteTodo fl i w)) = todos w"
  "loadingState (snd (api_deleteTodo fl i w)) = loadingState w"
  "isInitialLoading (snd (api_deleteTodo fl i w)) = isInitialLoading w"
  by (simp_all add: api_deleteTodo_def split: prod.splits)

lemma api_getAllTodos_fields [simp]:
  "fst (api_getAllTodos fl w) = getAllTodos fl (mockTodos w)"
  "mockTodos (snd (api_getAllTodos fl w)) = mockTodos w"
  "calls (snd (api_getAllTodos fl w)) = calls w @ [GetAllTodos]"
  "todos (snd (api_getAllTodos fl w)) = todos w"
  "loadingState (snd (api_getAllTodos fl w)) = loadingState w"
  "isInitialLoading (snd (api_getAllTodos fl w)) = isInitialLoading w"
  by (simp_all add: api_getAllTodos_def)

lemma api_deleteTodos_fields [simp]:
  "todos (snd (api_deleteTodos fls k ids w)) = todos w \<and>
   loadingState (snd (api_deleteTodos fls k ids w)) = loadingState w \<and>
   isInitialLoading (snd (api_deleteTodos fls k ids w)) = isInitialLoading w \<and>
   calls (snd (api_deleteTodos fls k ids w)) = calls w @ map DeleteTodo ids"
proof (induction ids arbitrary: k w)
  case Nil
  show ?case by simp
next
  case (Cons i ids)
  obtain r w' where 1: "api_deleteTodo (fls k) i w = (r, w')" by fastforce
  obtain rs w'' where 2: "api_deleteTodos fls (Suc k) ids w' = (rs, w'')" by fastforce
  have w': "todos w' = todos w \<and> loadingState w' = loadingState w \<and>
    isInitialLoading w' = isInitialLoading w \<and> calls w' = calls w @ [DeleteTodo i]"
    using api_deleteTodo_fields [of "fls k" i w] unfolding 1 by simp
  from Cons.IH [of "Suc k" w'] 1 2 w' show ?case by simp
qed

subsection \<open>The handlers in terms of the backend's answer\<close>

lemma handleCreateTodo_unfold:
  "handleCreateTodo fl a b c input w =
     (let w' = snd (api_createTodo fl a b c input
                 (w\<lparr>loadingState :=
                      \<lparr>isLoading = True, operation = Some Op_create, targetId = None\<rparr>\<rparr>))
      in case fst (createTodo fl a b c input (mockTodos w)) of
        Inr response \<Rightarrow>
          (None,
           (toast ''Success'' (ascii ''Task created successfully!'') ''default''
              (w'\<lparr>todos := data response # todos w'\<rparr>))\<lparr>loadingState := notLoading\<rparr>)
      | Inl error \<Rightarrow>
          (Some error,
           (toast ''Error'' (message_e error) ''destructive'' w')\<lparr>loadingState := notLoading\<rparr>))"
  by (simp add: handleCreateTodo_def api_createTodo_def Let_def split: prod.splits sum.splits)

lemma handleCreateTodo_todos:
  "todos (snd (handleCreateTodo fl a b c input w)) =
     (case fst (createTodo fl a b c input (mockTodos w)) of
        Inr response \<Rightarrow> data response # todos w | Inl error \<Rightarrow> todos w)"
  by (simp add: handleCreateTodo_unfold Let_def split: sum.splits)

lemma handleUpdateTodo_unfold:
  "handleUpdateTodo fl now i input w =
     (let w' = snd (api_updateTodo fl now i input
                 (w\<lparr>loadingState :=
                      \<lparr>isLoading = True, operation = Some Op_update, targetId = Some i\<rparr>\<rparr>))
      in case fst (updateTodo fl now i input (mockTodos w)) of
        Inr response \<Rightarrow>
          (let w'' = w'\<lparr>todos := map (\<lambda>todo. if id_todo todo = i then data response else todo)
                                    (todos w')\<rparr>
           in (None,
               (if manualEdit input
                then toast ''Success'' (ascii ''Task updated successfully!'') ''default'' w''
                else w'')\<lparr>loadingState := notLoading\<rparr>))
      | Inl error \<Rightarrow>
          (Some error,
           (toast ''Error'' (message_e error) ''destructive'' w')\<lparr>loadingState := notLoading\<rparr>))"
  by (simp add: handleUpdateTodo_def api_updateTodo_def Let_def split: prod.splits sum.splits)

lemma handleDeleteTodo_unfold:
  "handleDeleteTodo fl i w =
     (let w' = snd (api_deleteTodo fl i
                 (w\<lparr>loadingState :=
                      \<lparr>isLoading = True, operation = Some Op_delete, targetId = Some i\<rparr>\<rparr>))
      in case fst (deleteTodo fl i (mockTodos w)) of
        Inr response \<Rightarrow>
          (toast ''Success'' (ascii ''Task deleted successfully!'') ''default''
             (w'\<lparr>todos := filter (\<lambda>todo. id_todo todo \<noteq> i) (todos w')\<rparr>))
          \<lparr>loadingState := notLoading\<rparr>
      | Inl error \<Rightarrow>
          (toast ''Error'' (message_e error) ''destructive'' w')\<lparr>loadingState := notLoading\<rparr>)"
  by (simp add: handleDeleteTodo_def api_deleteTodo_def Let_def split: prod.splits sum.splits)

lemma handleBulkDelete_unfold:
  "handleBulkDelete fls w =
     (let completedTodos = filter completed (todos w);
          res = api_deleteTodos fls 0 (map id_todo completedTodos)
             (w\<lparr>loadingState :=
                  \<lparr>isLoading = True, operation = Some Op_delete, targetId = None\<rparr>\<rparr>)
      in (if list_all fulfilled (fst res) then
             toast ''Success''
               (toString (int (length completedTodos)) @ ascii '' completed task(s) deleted!'')
               ''default''
               ((snd res)\<lparr>todos := filter (\<lambda>todo. \<not> completed todo) (todos (snd res))\<rparr>)
           else
             toast ''Error'' (ascii ''Failed to delete completed tasks. Please try again.'')
               ''destructive'' (snd res))
          \<lparr>loadingState := notLoading\<rparr>)"
  by (simp add: handleBulkDelete_def Let_def case_prod_beta)

lemma fetchTodos_unfold:
  "fetchTodos fl w =
     (let w' = snd (api_getAllTodos fl (w\<lparr>isInitialLoading := True\<rparr>))
      in case getAllTodos fl (mockTodos w) of
        Inr response \<Rightarrow> (w'\<lparr>todos := data response\<rparr>)\<lparr>isInitialLoading := False\<rparr>
      | Inl error \<Rightarrow>
          (toast ''Error'' (message_e error) ''destructive'' w')\<lparr>isInitialLoading := False\<rparr>)"
  by (simp add: fetchTodos_def api_getAllTodos_def Let_def split: prod.splits sum.splits)

lemma handleUpdateTodo_todos:
  "todos (snd (handleUpdateTodo fl now i input w)) =
     (case fst (updateTodo fl now i input (mockTodos w)) of
        Inr response \<Rightarrow> map (\<lambda>todo. if id_todo todo = i then data response else todo) (todos w)
      | Inl error \<Rightarrow> todos w)"
  by (simp add: handleUpdateTodo_unfold Let_def split: sum.splits)

lemma handleDeleteTodo_todos:
  "todos (handleDeleteTodo fl i w) =
     (case fst (deleteTodo fl i (mockTodos w)) of
        Inr response \<Rightarrow> filter (\<lambda>todo. id_todo todo \<noteq> i) (todos w)
      | Inl error \<Rightarrow> todos w)"
  by (simp add: handleDeleteTodo_unfold Let_def split: sum.splits)

lemma handleBulkDelete_todos:
  "todos (handleBulkDelete fls w) =
     (if list_all fulfilled
           (fst (api_deleteTodos fls 0 (map id_todo (filter completed (todos w)))
              (w\<lparr>loadingState :=
                  \<lparr>isLoading = True, operation = Some Op_delete, targetId = None\<rparr>\<rparr>)))
      then filter (\<lambda>todo. \<not> completed todo) (todos w) else todos w)"
  by (simp add: handleBulkDelete_unfold Let_def)

lemma fetchTodos_todos:
  "todos (fetchTodos fl w) =
     (case getAllTodos fl (mockTodos w) of
        Inr response \<Rightarrow> data response | Inl error \<Rightarrow> todos w)"
  by (simp add: fetchTodos_unfold Let_def split: sum.splits)

lemma handlers_loadingState:
  "loadingState (snd (handleCreateTodo fl a b c cinput w)) = notLoading"
  "loadingState (snd (handleUpdateTodo fl now i input w)) = notLoading"
  "loadingState (handleDeleteTodo fl i w) = notLoading"
  "loadingState (handleBulkDelete fls w) = notLoading"
  "loadingState (fetchTodos fl w) = loadingState w"
  by (simp_all add: handleCreateTodo_unfold handleUpdateTodo_unfold handleDeleteTodo_unfold
      handleBulkDelete_unfold fetchTodos_unfold Let_def split: sum.splits)

lemma handlers_isInitialLoading:
  "isInitialLoading (snd (handleCreateTodo fl a b c cinput w)) = isInitialLoading w"
  "isInitialLoading (snd (handleUpdateTodo fl now i input w)) = isInitialLoading w"
  "isInitialLoading (handleDeleteTodo fl i w) = isInitialLoading w"
  "isInitialLoading (handleBulkDelete fls w) = isInitialLoading w"
  "isInitialLoading (fetchTodos fl w) = False"
  by (simp_all add: handleCreateTodo_unfold handleUpdateTodo_unfold handleDeleteTodo_unfold
      handleBulkDelete_unfold fetchTodos_unfold Let_def split: sum.splits)

subsection \<open>The initial data, evaluated\<close>

lemma seed_fields [simp]:
  "id_todo todo_1 = ascii ''1''" "id_todo todo_2 = ascii ''2''" "id_todo todo_3 = ascii ''3''"
  "completed todo_1 = False" "completed todo_2 = True" "completed todo_3 = False"
  "createdAt todo_1 = 1705312800000" "createdAt todo_2 = 1705242600000"
  "createdAt todo_3 = 1705394700000"
  "updatedAt todo_1 = 1705312800000" "updatedAt todo_2 = 1705310100000"
  "updatedAt todo_3 = 1705394700000"
  by (simp_all add: todo_1_def todo_2_def todo_3_def)

lemma World_loaded_fields [simp]:
  "todos World_loaded = [todo_3, todo_1, todo_2]"
  "mockTodos World_loaded = [todo_1, todo_2, todo_3]"
  "loadingState World_loaded = notLoading"
  "isInitialLoading World_loaded = False"
  "calls World_loaded = [GetAllTodos]"
  by (simp_all add: World_loaded_def World_init_def fetchTodos_unfold getAllTodos_def
      mockTodos_init_def Let_def)

lemma ascii_simps [simp]:
  "ascii [] = []"
  "ascii (c # cs) = of_nat (of_char c) # ascii cs"
  by (simp_all add: ascii_def)

subsection \<open>Further facts about the backend calls\<close>

lemma api_deleteTodos_backend_only:
  "mockTodos w = mockTodos w' \<Longrightarrow>
     fst (api_deleteTodos fls k ids w) = fst (api_deleteTodos fls k ids w')
     \<and> mockTodos (snd (api_deleteTodos fls k ids w)) =
        mockTodos (snd (api_deleteTodos fls k ids w'))"
proof (induction ids arbitrary: k w w')
  case Nil
  then show ?case by simp
next
  case (Cons i ids)
  obtain r v where 1: "api_deleteTodo (fls k) i w = (r, v)" by fastforce
  obtain r' v' where 2: "api_deleteTodo (fls k) i w' = (r', v')" by fastforce
  have "r = r'" and m: "mockTodos v = mockTodos v'"
    using api_deleteTodo_fields(1,2) [of "fls k" i w] api_deleteTodo_fields(1,2) [of "fls k" i w']
      Cons.prems unfolding 1 2 by simp_all
  with Cons.IH [OF m, of "Suc k"] 1 2 show ?case
    by (simp add: case_prod_beta)
qed

lemma merge_input_fields [simp]:
  "id_todo (merge_input t input now) = id_todo t"
  "createdAt (merge_input t input now) = createdAt t"
  "updatedAt (merge_input t input now) = now"
  "title (merge_input t input now) = (case title_u input of None \<Rightarrow> title t | Some x \<Rightarrow> x)"
  "description (merge_input t input now) =
     (case description_u input of
        Absent \<Rightarrow> description t | Undefined \<Rightarrow> None | Given d \<Rightarrow> Some d)"
  "completed (merge_input t input now) =
     (case completed_u input of None \<Rightarrow> completed t | Some c \<Rightarrow> c)"
  by (simp_all add: merge_input_def)

lemma updateTodo_fulfilled:
  assumes "fst (updateTodo fl now i input store) = Inr response"
  shows "findIndex (\<lambda>todo. id_todo todo = i) store \<noteq> - 1"
    and "data response =
           merge_input (store ! nat (findIndex (\<lambda>todo. id_todo todo = i) store)) input now"
    and "snd (updateTodo fl now i input store) =
           store[nat (findIndex (\<lambda>todo. id_todo todo = i) store) := data response]"
  using assms by (auto simp: updateTodo_def Let_def split: if_splits)

lemma handleUpdateTodo_outcome:
  "fst (handleUpdateTodo fl now i input w) =
     (case fst (updateTodo fl now i input (mockTodos w)) of
        Inr response \<Rightarrow> None | Inl error \<Rightarrow> Some error)"
  by (simp add: handleUpdateTodo_unfold Let_def split: sum.splits)

lemma handleUpdateTodo_mockTodos:
  "mockTodos (snd (handleUpdateTodo fl now i input w)) =
     snd (updateTodo fl now i input (mockTodos w))"
  by (simp add: handleUpdateTodo_unfold Let_def split: sum.splits)

lemma filter_map_replace_distinct:
  assumes "distinct (map f xs)" and "T \<in> set xs" and "f T' = f T"
  shows "filter (\<lambda>x. f x = f T) (map (\<lambda>x. if x = T then T' else x) xs) = [T']"
  using assms(1,2)
proof (induction xs)
  case Nil
  then show ?case by simp
next
  case (Cons x xs)
  show ?case
  proof (cases "x = T")
    case True
    with Cons.prems(1) have "f T \<notin> f ` set xs" by simp
    then have "\<forall>y \<in> set xs. f y \<noteq> f T" by (metis imageI)
    then have "filter (\<lambda>x. f x = f T) (map (\<lambda>x. if x = T then T' else x) xs) = []"
      by (auto simp: filter_empty_conv)
    with True assms(3) show ?thesis by simp
  next
    case False
    with Cons.prems have "T \<in> set xs" and "distinct (map f xs)" and "f x \<noteq> f T"
      by auto
    with Cons.IH False show ?thesis by simp
  qed
qed

lemma handleCreateTodo_mockTodos:
  "mockTodos (snd (handleCreateTodo fl a b c input w)) =
     snd (createTodo fl a b c input (mockTodos w))"
  by (simp add: handleCreateTodo_unfold Let_def split: sum.splits)

lemma handleDeleteTodo_mockTodos:
  "mockTodos (handleDeleteTodo fl i w) = snd (deleteTodo fl i (mockTodos w))"
  by (simp add: handleDeleteTodo_unfold Let_def split: sum.splits)

lemma rejected_store_unchanged:
  "fst (createTodo fl a b c cinput store) = Inl e \<Longrightarrow>
     snd (createTodo fl a b c cinput store) = store"
  "fst (updateTodo fl now i input store) = Inl e \<Longrightarrow>
     snd (updateTodo fl now i input store) = store"
  "fst (deleteTodo fl i store) = Inl e' \<Longrightarrow> snd (deleteTodo fl i store) = store"
  by (auto simp: createTodo_def updateTodo_def deleteTodo_def Let_def split: if_splits)

section \<open>The collection mirrors the backend\<close>

text \<open>
  \<open>consistent\<close> holds of the initial state and every handler keeps it, whatever the
  backend answers; a create keeps it when the id of the new task is not in use. So it
  holds of every state the page reaches.
\<close>

lemma distinct_map_splice1:
  assumes "distinct (map f xs)"
  shows "distinct (map f (splice1 k xs))"
proof -
  let ?ys = "map f xs"
  have "map f (splice1 k xs) = take (nat k) ?ys @ drop (nat k + 1) ?ys"
    by (simp add: splice1_def take_map drop_map)
  moreover have "set (take (nat k) ?ys) \<inter> set (drop (nat k + 1) ?ys) = {}"
    by (rule set_take_disj_set_drop_if_distinct [OF assms]) simp
  ultimately show ?thesis using assms by simp
qed

lemma set_splice1: "set (splice1 k xs) \<subseteq> set xs"
  by (auto simp: splice1_def dest: in_set_takeD in_set_dropD)

lemma list_update_same_key:
  assumes "distinct (map f xs)" and "k < length xs" and "f y = f (xs ! k)"
    and "b \<in> set (xs[k := y])" and "f b = f y"
  shows "b = y"
proof -
  from assms(4) obtain j where j: "j < length xs" "xs[k := y] ! j = b"
    by (auto simp: in_set_conv_nth)
  show ?thesis
  proof (cases "j = k")
    case True
    with j assms(2) show ?thesis by simp
  next
    case False
    with j have "b = xs ! j" by simp
    with assms(3,5) have "map f xs ! j = map f xs ! k" using j(1) assms(2) by simp
    moreover have "length (map f xs) = length xs" by simp
    ultimately have "j = k"
      using nth_eq_iff_index_eq [OF assms(1), of j k] j(1) assms(2) by simp
    with False show ?thesis by simp
  qed
qed

lemma deleteTodo_store:
  "distinct (map id_todo store) \<Longrightarrow> distinct (map id_todo (snd (deleteTodo fl i store)))"
  "set (snd (deleteTodo fl i store)) \<subseteq> set store"
  using set_splice1 [of _ store]
  by (auto simp: deleteTodo_def Let_def distinct_map_splice1)

lemma api_deleteTodos_store:
  "(distinct (map id_todo (mockTodos w)) \<longrightarrow>
      distinct (map id_todo (mockTodos (snd (api_deleteTodos fls k ids w)))))
   \<and> set (mockTodos (snd (api_deleteTodos fls k ids w))) \<subseteq> set (mockTodos w)"
proof (induction ids arbitrary: k w)
  case Nil
  show ?case by simp
next
  case (Cons i ids)
  obtain r v where 1: "api_deleteTodo (fls k) i w = (r, v)" by fastforce
  have v: "mockTodos v = snd (deleteTodo (fls k) i (mockTodos w))"
    using api_deleteTodo_fields(2) [of "fls k" i w] unfolding 1 by simp
  from Cons.IH [where k = "Suc k" and w = v]
    deleteTodo_store [where store = "mockTodos w" and fl = "fls k" and i = i] 1 v
  show ?case by (auto simp: case_prod_beta)
qed

lemma consistent_init: "consistent World_init"
  by (simp add: consistent_def World_init_def mockTodos_init_def)

lemma consistent_fetchTodos:
  assumes "consistent w"
  shows "consistent (fetchTodos fl w)"
proof (cases fl)
  case True
  with assms show ?thesis
    by (simp add: consistent_def fetchTodos_unfold getAllTodos_def Let_def)
next
  case False
  let ?s = "sort_cmp (\<lambda>a b. createdAt b - createdAt a) (mockTodos w)"
  from assms have d: "distinct (map id_todo (mockTodos w))" by (simp add: consistent_def)
  have "mset (map id_todo ?s) = mset (map id_todo (mockTodos w))" by simp
  with d have "distinct (map id_todo ?s)" by (metis mset_eq_imp_distinct_iff)
  moreover have "set ?s = set (mockTodos w)" by (metis mset_sort_cmp set_mset_mset)
  moreover have "b = t" if "t \<in> set (mockTodos w)" "b \<in> set (mockTodos w)"
      "id_todo b = id_todo t" for b t
    using d that by (auto simp: distinct_map inj_on_def)
  ultimately show ?thesis using False d
    by (simp add: consistent_def fetchTodos_unfold getAllTodos_def Let_def)
qed

lemma consistent_handleCreateTodo:
  assumes "consistent w"
    and "toString now_id \<notin> id_todo ` (set (todos w) \<union> set (mockTodos w))"
  shows "consistent (snd (handleCreateTodo fl now_id now_c now_u input w))"
proof (cases fl)
  case True
  with assms(1) show ?thesis
    by (simp add: consistent_def handleCreateTodo_unfold createTodo_def Let_def)
next
  case False
  from assms(2) have "\<forall>x \<in> set (todos w) \<union> set (mockTodos w). id_todo x \<noteq> toString now_id"
    by force
  with False assms(1) show ?thesis
    by (auto simp: consistent_def handleCreateTodo_unfold createTodo_def Let_def)
qed

lemma consistent_handleDeleteTodo:
  assumes "consistent w"
  shows "consistent (handleDeleteTodo fl i w)"
proof -
  have m: "mockTodos (handleDeleteTodo fl i w) = snd (deleteTodo fl i (mockTodos w))"
    by (simp add: handleDeleteTodo_unfold Let_def split: sum.splits)
  have t: "set (todos (handleDeleteTodo fl i w)) \<subseteq> set (todos w)"
    "distinct (map id_todo (todos w)) \<Longrightarrow> distinct (map id_todo (todos (handleDeleteTodo fl i w)))"
    by (auto simp: handleDeleteTodo_todos distinct_map_filter split: sum.splits)
  from assms t deleteTodo_store [where store = "mockTodos w" and fl = fl and i = i]
  show ?thesis
    unfolding consistent_def m by blast
qed

lemma consistent_handleBulkDelete:
  assumes "consistent w"
  shows "consistent (handleBulkDelete fls w)"
proof -
  let ?w = "w\<lparr>loadingState :=
                \<lparr>isLoading = True, operation = Some Op_delete, targetId = None\<rparr>\<rparr>"
  let ?ids = "map id_todo (filter completed (todos w))"
  have m: "mockTodos (handleBulkDelete fls w) = mockTodos (snd (api_deleteTodos fls 0 ?ids ?w))"
    by (simp add: handleBulkDelete_unfold Let_def)
  have t: "set (todos (handleBulkDelete fls w)) \<subseteq> set (todos w)"
    "distinct (map id_todo (todos w)) \<Longrightarrow> distinct (map id_todo (todos (handleBulkDelete fls w)))"
    by (auto simp: handleBulkDelete_todos distinct_map_filter)
  from assms t api_deleteTodos_store [where w = ?w and fls = fls and k = 0 and ids = ?ids]
  show ?thesis
    unfolding consistent_def m by simp blast
qed

lemma consistent_handleUpdateTodo:
  assumes "consistent w"
  shows "consistent (snd (handleUpdateTodo fl now i input w))"
proof (cases "fst (updateTodo fl now i input (mockTodos w))")
  case (Inl error)
  then have "snd (updateTodo fl now i input (mockTodos w)) = mockTodos w"
    by (auto simp: updateTodo_def Let_def split: if_splits)
  with Inl assms show ?thesis
    by (simp add: consistent_def handleUpdateTodo_todos handleUpdateTodo_mockTodos)
next
  case (Inr response)
  let ?store = "mockTodos w"
  let ?k = "nat (findIndex (\<lambda>todo. id_todo todo = i) ?store)"
  let ?T' = "data response"
  note f = updateTodo_fulfilled [OF Inr]
  from findIndex_found [OF f(1)] have k: "?k < length ?store" and ik: "id_todo (?store ! ?k) = i"
    by simp_all
  have iT: "id_todo ?T' = i" using f(2) ik by simp
  from assms have ds: "distinct (map id_todo ?store)" and dl: "distinct (map id_todo (todos w))"
    and ag: "\<And>t b. t \<in> set (todos w) \<Longrightarrow> b \<in> set ?store \<Longrightarrow> id_todo b = id_todo t \<Longrightarrow> b = t"
    by (auto simp: consistent_def)
  let ?store' = "?store[?k := ?T']"
  let ?local' = "map (\<lambda>todo. if id_todo todo = i then ?T' else todo) (todos w)"
  have m: "mockTodos (snd (handleUpdateTodo fl now i input w)) = ?store'"
    using f(3) by (simp add: handleUpdateTodo_mockTodos)
  have t: "todos (snd (handleUpdateTodo fl now i input w)) = ?local'"
    using Inr by (simp add: handleUpdateTodo_todos)
  have "map id_todo ?store' = (map id_todo ?store)[?k := map id_todo ?store ! ?k]"
    using iT ik k by (simp add: map_update)
  then have "map id_todo ?store' = map id_todo ?store"
    by (simp only: list_update_id)
  with ds have 1: "distinct (map id_todo ?store')" by simp
  have eq: "map id_todo ?local' = map id_todo (todos w)"
    using iT by auto
  have 2: "distinct (map id_todo ?local')"
    unfolding eq by (rule dl)
  have 3: "b = t" if t': "t \<in> set ?local'" and b': "b \<in> set ?store'" and e: "id_todo b = id_todo t"
    for t b
  proof (cases "id_todo t = i")
    case True
    with t' iT have "t = ?T'" by auto
    moreover have "b = ?T'"
      by (rule list_update_same_key [OF ds k _ b']) (simp_all add: iT ik e True)
    ultimately show ?thesis by simp
  next
    case False
    with t' iT have tl: "t \<in> set (todos w)" by auto
    from b' have "b = ?T' \<or> b \<in> set ?store"
      using set_update_subset_insert [of ?store ?k ?T'] by auto
    with e False iT have "b \<in> set ?store" by auto
    with tl e show ?thesis by (simp add: ag)
  qed
  show ?thesis unfolding consistent_def m t using 1 2 3 by blast
qed

lemma consistent_setFilter: "consistent w \<Longrightarrow> consistent (setFilter f w)"
  by (simp add: consistent_def setFilter_def)

lemma reachable_consistent: "reachable w \<Longrightarrow> consistent w"
proof (induction rule: reachable.induct)
  case reachable_init
  show ?case by (rule consistent_init)
next
  case (reachable_fetch w fl)
  then show ?case by (simp add: consistent_fetchTodos)
next
  case (reachable_create w now_id fl now_c now_u input)
  then show ?case by (simp add: consistent_handleCreateTodo)
next
  case (reachable_update w fl now i input)
  then show ?case by (simp add: consistent_handleUpdateTodo)
next
  case (reachable_delete w fl i)
  then show ?case by (simp add: consistent_handleDeleteTodo)
next
  case (reachable_bulk w fls)
  then show ?case by (simp add: consistent_handleBulkDelete)
next
  case (reachable_filter w f)
  then show ?case by (simp add: consistent_setFilter)
qed

lemma reachable_World_loaded: "reachable World_loaded"
  unfolding World_loaded_def by (intro reachable_fetch reachable_init)

section \<open>A blank title is rejected by the entry form\<close>

text \<open>
  C1, for the entry form. The check for a title that is empty after trimming is made by
  the submit handler of the entry form: for such a title \<open>handleSubmit\<close> returns
  without calling \<open>onSubmit\<close>, so the form and the whole state are as before, the
  backend has received no request and the collection is unchanged. For any other title
  the form calls the page's \<open>handleCreateTodo\<close> with the trimmed title, which sends one
  create request.
\<close>

theorem blank_title_rejected_by_form:
  "(trim (title_f form) = [] \<longrightarrow>
      handleSubmit onSubmit form w = (form, w)
      \<and> calls (snd (handleSubmit (handleCreateTodo fl a b c) form w)) = calls w
      \<and> todos (snd (handleSubmit (handleCreateTodo fl a b c) form w)) = todos w
      \<and> mockTodos (snd (handleSubmit (handleCreateTodo fl a b c) form w)) = mockTodos w)
   \<and> (trim (title_f form) \<noteq> [] \<longrightarrow>
      calls (snd (handleSubmit (handleCreateTodo fl a b c) form w)) =
        calls w @ [CreateTodo \<lparr>title_c = trim (title_f form),
                     description_c = (if trim (description_f form) = [] then None
                                      else Some (trim (description_f form)))\<rparr>])"
proof (intro conjI impI)
  let ?input = "\<lparr>title_c = trim (title_f form),
                 description_c = (if trim (description_f form) = [] then None
                                  else Some (trim (description_f form)))\<rparr>"
  assume "trim (title_f form) \<noteq> []"
  then have "snd (handleSubmit (handleCreateTodo fl a b c) form w) =
               snd (handleCreateTodo fl a b c ?input w)"
    by (simp add: handleSubmit_def split: prod.splits option.splits)
  then show "calls (snd (handleSubmit (handleCreateTodo fl a b c) form w)) =
               calls w @ [CreateTodo ?input]"
    by (simp add: handleCreateTodo_unfold Let_def split: sum.splits)
qed (simp_all add: handleSubmit_def)

theorem blank_title_rejected_by_form_witness:
  "trim (ascii ''  '') = []
   \<and> handleSubmit (handleCreateTodo False 1760000000000 1760000000001 1760000000002)
        \<lparr>title_f = ascii ''  '', description_f = [], isExpanded = True\<rparr> World_loaded =
      (\<lparr>title_f = ascii ''  '', description_f = [], isExpanded = True\<rparr>, World_loaded)
   \<and> calls (snd (handleSubmit (handleCreateTodo False 1760000000000 1760000000001 1760000000002)
        \<lparr>title_f = ascii '' Buy milk '', description_f = [], isExpanded = True\<rparr>
        World_loaded)) =
      [GetAllTodos, CreateTodo \<lparr>title_c = ascii ''Buy milk'', description_c = None\<rparr>]"
proof -
  have 1: "trim (ascii ''  '') = []" by (simp add: trim_def isWhiteSpace_def)
  have 4: "trim (title_f \<lparr>title_f = ascii ''  '', description_f = [], isExpanded = True\<rparr>) = []"
    using 1 by simp
  have 5: "trim (title_f \<lparr>title_f = ascii '' Buy milk '', description_f = [],
      isExpanded = True\<rparr>) \<noteq> []"
    by (simp add: trim_def isWhiteSpace_def)
  note t = blank_title_rejected_by_form [where w = World_loaded and fl = False
      and a = 1760000000000 and b = 1760000000001 and c = 1760000000002]
  note t1 = t [where form = "\<lparr>title_f = ascii ''  '', description_f = [], isExpanded = True\<rparr>"
      and onSubmit = "handleCreateTodo False 1760000000000 1760000000001 1760000000002",
      THEN conjunct1, rule_format, OF 4, THEN conjunct1]
  note t2 = t [where form = "\<lparr>title_f = ascii '' Buy milk '', description_f = [],
      isExpanded = True\<rparr>", THEN conjunct2, rule_format, OF 5]
  have "calls (snd (handleSubmit (handleCreateTodo False 1760000000000 1760000000001 1760000000002)
        \<lparr>title_f = ascii '' Buy milk '', description_f = [], isExpanded = True\<rparr>
        World_loaded)) =
      [GetAllTodos, CreateTodo \<lparr>title_c = ascii ''Buy milk'', description_c = None\<rparr>]"
    unfolding t2 by (simp add: trim_def isWhiteSpace_def)
  with 1 t1 show ?thesis by simp
qed

text \<open>
  C1 does not hold of the page's create operation itself: \<open>handleCreateTodo\<close> makes
  no check of its own. Called with the title of two spaces on the loaded page,
  with the backend fulfilling the request, it sends the request and puts a task with the
  empty title at the head of the collection.
\<close>

theorem handleCreateTodo_blank_title_dispatches:
  "trim (ascii ''  '') = []
   \<and> calls (snd (handleCreateTodo False 1760000000000 1760000000001 1760000000002
        \<lparr>title_c = ascii ''  '', description_c = None\<rparr> World_loaded)) =
      [GetAllTodos, CreateTodo \<lparr>title_c = ascii ''  '', description_c = None\<rparr>]
   \<and> todos (snd (handleCreateTodo False 1760000000000 1760000000001 1760000000002
        \<lparr>title_c = ascii ''  '', description_c = None\<rparr> World_loaded)) =
      [\<lparr>id_todo = ascii ''1760000000000'', title = [], description = Some [],
        completed = False, createdAt = 1760000000001, updatedAt = 1760000000002\<rparr>,
       todo_3, todo_1, todo_2]
   \<and> calls (snd (handleCreateTodo False 1760000000000 1760000000001 1760000000002
        \<lparr>title_c = ascii ''  '', description_c = None\<rparr> World_loaded)) \<noteq> calls World_loaded
   \<and> todos (snd (handleCreateTodo False 1760000000000 1760000000001 1760000000002
        \<lparr>title_c = ascii ''  '', description_c = None\<rparr> World_loaded)) \<noteq> todos World_loaded"
  by (simp add: handleCreateTodo_unfold createTodo_def Let_def trim_def isWhiteSpace_def
      toString_def digits10.simps)

section \<open>The backend checks failure injection before existence\<close>

text \<open>
  C2. In \<open>updateTodo\<close> and \<open>deleteTodo\<close> the simulated failure is checked before the
  target is looked up. When the draw fires, the request is rejected with \<open>UPDATE_ERROR\<close>
  (\<open>DELETE_ERROR\<close>) and the array is left as it was, for every id, present or absent;
  the rejection is the same for any two arrays, ids and inputs, so it does not tell whether
  the target existed. A request is rejected with \<open>NOT_FOUND\<close> exactly when the draw did
  not fire and no stored task has the id.
\<close>

theorem failure_injection_before_existence:
  "updateTodo True now i input store =
     (Inl \<lparr>message_e = ascii ''Failed to update todo. Please try again.'',
           code = UPDATE_ERROR\<rparr>, store)
   \<and> deleteTodo True i store =
     (Inl \<lparr>message_e = ascii ''Failed to delete todo. Please try again.'',
           code = DELETE_ERROR\<rparr>, store)
   \<and> fst (updateTodo True now i input store) = fst (updateTodo True now' i' input' store')
   \<and> fst (deleteTodo True i store) = fst (deleteTodo True i' store')
   \<and> ((\<exists>e. fst (updateTodo fl now i input store) = Inl e \<and> code e = NOT_FOUND)
        = (\<not> fl \<and> i \<notin> id_todo ` set store))
   \<and> ((\<exists>e. fst (deleteTodo fl i store) = Inl e \<and> code e = NOT_FOUND)
        = (\<not> fl \<and> i \<notin> id_todo ` set store))"
  by (auto simp: updateTodo_def deleteTodo_def Let_def findIndex_none)

section \<open>An update replaces the task by the merged one\<close>

text \<open>
  C3, with the condition on the clock. Let the collection mirror the backend
  (\<open>consistent\<close>, which holds in every state
  the page reaches, \<open>reachable_consistent\<close>) and let \<open>T\<close> be one of its tasks. When
  \<open>handleUpdateTodo\<close> for the id of \<open>T\<close> is fulfilled, the collection afterwards is
  the collection before with \<open>T\<close> replaced, in its place, by \<open>T\<close> merged with the
  input: the properties the input carries are taken from it (a description carried as
  \<^verbatim>\<open>undefined\<close> clears the description), the others from \<open>T\<close>; \<open>id\<close> and
  \<open>createdAt\<close> are those of \<open>T\<close>, and \<open>updatedAt\<close> is the clock reading of the
  update. Exactly one task of the collection has the id of \<open>T\<close>; the backend stores
  the merged task and the collection still mirrors it. An input \<open>{completed: true}\<close>
  makes the task completed. The backend copies the clock reading into \<open>updatedAt\<close> and
  compares it with nothing: \<open>updatedAt\<close> afterwards is greater than or equal to the one
  before exactly when the clock reading of the update is not earlier than the one stored.
\<close>

theorem update_replaces_task:
  assumes "consistent w" and "T \<in> set (todos w)"
    and "fst (handleUpdateTodo fl now (id_todo T) input w) = None"
  shows "let T' = merge_input T input now;
             w' = snd (handleUpdateTodo fl now (id_todo T) input w)
         in todos w' = map (\<lambda>todo. if todo = T then T' else todo) (todos w)
          \<and> filter (\<lambda>todo. id_todo todo = id_todo T) (todos w') = [T']
          \<and> id_todo T' = id_todo T
          \<and> createdAt T' = createdAt T
          \<and> updatedAt T' = now
          \<and> title T' = (case title_u input of None \<Rightarrow> title T | Some x \<Rightarrow> x)
          \<and> description T' =
              (case description_u input of
                 Absent \<Rightarrow> description T | Undefined \<Rightarrow> None | Given d \<Rightarrow> Some d)
          \<and> completed T' = (case completed_u input of None \<Rightarrow> completed T | Some c \<Rightarrow> c)
          \<and> (completed_u input = Some True \<longrightarrow> completed T')
          \<and> (updatedAt T \<le> updatedAt T') = (updatedAt T \<le> now)
          \<and> T' \<in> set (mockTodos w')
          \<and> consistent w'"
proof -
  let ?i = "id_todo T"
  let ?store = "mockTodos w"
  let ?k = "nat (findIndex (\<lambda>todo. id_todo todo = ?i) ?store)"
  let ?T' = "merge_input T input now"
  from assms(3) obtain response where
    r: "fst (updateTodo fl now ?i input ?store) = Inr response"
    by (auto simp: handleUpdateTodo_outcome split: sum.splits)
  note f = updateTodo_fulfilled [OF r]
  from findIndex_found [OF f(1)] have k: "?k < length ?store" and ik: "id_todo (?store ! ?k) = ?i"
    by simp_all
  from k have "?store ! ?k \<in> set ?store" by simp
  with assms(1,2) ik have "?store ! ?k = T" by (auto simp: consistent_def)
  with f(2) have d: "data response = ?T'" by simp
  from assms(1) have dist: "distinct (map id_todo (todos w))" by (simp add: consistent_def)
  have same: "(id_todo x = ?i) = (x = T)" if "x \<in> set (todos w)" for x
    using dist assms(2) that by (auto simp: distinct_map inj_on_def)
  have t: "todos (snd (handleUpdateTodo fl now ?i input w)) =
      map (\<lambda>todo. if todo = T then ?T' else todo) (todos w)"
    using r d same by (simp add: handleUpdateTodo_todos)
  have one: "filter (\<lambda>todo. id_todo todo = ?i)
      (map (\<lambda>todo. if todo = T then ?T' else todo) (todos w)) = [?T']"
    by (rule filter_map_replace_distinct [OF dist assms(2)]) simp
  have "mockTodos (snd (handleUpdateTodo fl now ?i input w)) = ?store[?k := ?T']"
    using f(3) d by (simp add: handleUpdateTodo_mockTodos)
  with k have b: "?T' \<in> set (mockTodos (snd (handleUpdateTodo fl now ?i input w)))"
    by (simp add: set_update_memI)
  have c: "consistent (snd (handleUpdateTodo fl now ?i input w))"
    by (rule consistent_handleUpdateTodo [OF assms(1)])
  show ?thesis unfolding Let_def t using one b c by simp
qed

theorem update_replaces_task_witness:
  "consistent World_loaded
   \<and> todo_1 \<in> set (todos World_loaded)
   \<and> updatedAt todo_1 \<le> updatedAt (todo_1\<lparr>completed := True, updatedAt := 1760000000000\<rparr>)
   \<and> fst (handleUpdateTodo False 1760000000000 (id_todo todo_1)
        \<lparr>title_u = None, description_u = Absent, completed_u = Some True\<rparr> World_loaded) = None
   \<and> todos (snd (handleUpdateTodo False 1760000000000 (id_todo todo_1)
        \<lparr>title_u = None, description_u = Absent, completed_u = Some True\<rparr> World_loaded)) =
      [todo_3, todo_1\<lparr>completed := True, updatedAt := 1760000000000\<rparr>, todo_2]
   \<and> todos (handleToggleComplete (handleUpdateTodo False 1760000000000) todo_1 World_loaded) =
      [todo_3, todo_1\<lparr>completed := True, updatedAt := 1760000000000\<rparr>, todo_2]
   \<and> todos (snd (handleSaveEdit (handleUpdateTodo False 1760000000000) todo_1
        \<lparr>isEditing = True, editTitle = ascii ''B'', editDescription = ascii '' ''\<rparr>
        World_loaded)) =
      [todo_3,
       todo_1\<lparr>title := ascii ''B'', description := None, updatedAt := 1760000000000\<rparr>,
       todo_2]"
proof -
  let ?toggle = "\<lparr>title_u = None, description_u = Absent, completed_u = Some True\<rparr>"
  let ?edit = "\<lparr>title_u = Some (ascii ''B''), description_u = Undefined, completed_u = None\<rparr>"
  have c: "consistent World_loaded"
    by (rule reachable_consistent [OF reachable_World_loaded])
  have m: "todo_1 \<in> set (todos World_loaded)" by simp
  have o: "fst (handleUpdateTodo False 1760000000000 (id_todo todo_1) input World_loaded) = None"
    for input
    by (simp add: handleUpdateTodo_outcome updateTodo_def findIndex_def Let_def)
  have ne: "todo_3 \<noteq> todo_1" "todo_2 \<noteq> todo_1"
    by (simp_all add: todo_1_def todo_2_def todo_3_def)
  have 1: "merge_input todo_1 ?toggle 1760000000000 =
      todo_1\<lparr>completed := True, updatedAt := 1760000000000\<rparr>"
    by (simp add: merge_input_def)
  have 2: "merge_input todo_1 ?edit 1760000000000 =
      todo_1\<lparr>title := ascii ''B'', description := None, updatedAt := 1760000000000\<rparr>"
    by (simp add: merge_input_def)
  have 3: "handleToggleComplete (handleUpdateTodo False 1760000000000) todo_1 World_loaded =
      snd (handleUpdateTodo False 1760000000000 (id_todo todo_1) ?toggle World_loaded)"
    by (simp add: handleToggleComplete_def isItemLoading_def notLoading_def)
  have 4: "snd (handleSaveEdit (handleUpdateTodo False 1760000000000) todo_1
        \<lparr>isEditing = True, editTitle = ascii ''B'', editDescription = ascii '' ''\<rparr>
        World_loaded) =
      snd (handleUpdateTodo False 1760000000000 (id_todo todo_1) ?edit World_loaded)"
    using o [of ?edit]
    by (simp add: handleSaveEdit_def trim_def isWhiteSpace_def split: prod.splits option.splits)
  from update_replaces_task [OF c m o [of ?toggle]] update_replaces_task [OF c m o [of ?edit]]
  show ?thesis
    unfolding Let_def 1 2 3 4 using c m o [of ?toggle] ne by simp
qed

text \<open>
  C3 without the condition on the clock does not hold: nothing in the update makes
  \<open>updatedAt\<close> grow. On the loaded page, an update \<open>{completed: true}\<close> of the second
  initial task that the backend fulfils at a clock reading earlier than the task's
  \<open>updatedAt\<close> (a clock that was set back) leaves one task with that id, completed and
  with its \<open>createdAt\<close>, whose \<open>updatedAt\<close> is smaller than before.
\<close>

theorem update_can_lower_updatedAt:
  "consistent World_loaded
   \<and> todo_2 \<in> set (todos World_loaded)
   \<and> fst (handleUpdateTodo False 1705000000000 (id_todo todo_2)
        \<lparr>title_u = None, description_u = Absent, completed_u = Some True\<rparr> World_loaded) = None
   \<and> todos (snd (handleUpdateTodo False 1705000000000 (id_todo todo_2)
        \<lparr>title_u = None, description_u = Absent, completed_u = Some True\<rparr> World_loaded)) =
      [todo_3, todo_1, todo_2\<lparr>completed := True, updatedAt := 1705000000000\<rparr>]
   \<and> updatedAt todo_2 = 1705310100000
   \<and> updatedAt (todo_2\<lparr>completed := True, updatedAt := 1705000000000\<rparr>) < updatedAt todo_2"
proof -
  have c: "consistent World_loaded"
    by (rule reachable_consistent [OF reachable_World_loaded])
  have ne: "todo_3 \<noteq> todo_2" "todo_1 \<noteq> todo_2"
    by (simp_all add: todo_1_def todo_2_def todo_3_def)
  have o: "fst (handleUpdateTodo False 1705000000000 (id_todo todo_2)
        \<lparr>title_u = None, description_u = Absent, completed_u = Some True\<rparr> World_loaded) = None"
    by (simp add: handleUpdateTodo_outcome updateTodo_def findIndex_def Let_def)
  have t: "todos (snd (handleUpdateTodo False 1705000000000 (id_todo todo_2)
        \<lparr>title_u = None, description_u = Absent, completed_u = Some True\<rparr> World_loaded)) =
      [todo_3, todo_1, todo_2\<lparr>completed := True, updatedAt := 1705000000000\<rparr>]"
    using ne
    by (simp add: handleUpdateTodo_todos updateTodo_def findIndex_def Let_def merge_input_def)
  show ?thesis using c o t by simp
qed

section \<open>A failed mutation leaves the collection as it was\<close>

text \<open>
  C4. When the backend rejects a create, an update or a delete (by the simulated failure
  or because the id is not stored), the collection of the page after the handler has
  settled is the collection before the call, and so is the backend's array. A rejected
  create or update is re-thrown to the caller with the backend's error.
\<close>

theorem failed_mutation_leaves_collection:
  "(fst (createTodo fl a b c cinput (mockTodos w)) = Inl e \<longrightarrow>
      todos (snd (handleCreateTodo fl a b c cinput w)) = todos w
      \<and> mockTodos (snd (handleCreateTodo fl a b c cinput w)) = mockTodos w
      \<and> fst (handleCreateTodo fl a b c cinput w) = Some e)
   \<and> (fst (updateTodo fl now i input (mockTodos w)) = Inl e \<longrightarrow>
      todos (snd (handleUpdateTodo fl now i input w)) = todos w
      \<and> mockTodos (snd (handleUpdateTodo fl now i input w)) = mockTodos w
      \<and> fst (handleUpdateTodo fl now i input w) = Some e)
   \<and> (fst (deleteTodo fl i (mockTodos w)) = Inl e \<longrightarrow>
      todos (handleDeleteTodo fl i w) = todos w
      \<and> mockTodos (handleDeleteTodo fl i w) = mockTodos w)"
  by (simp add: handleCreateTodo_todos handleUpdateTodo_todos handleDeleteTodo_todos
      handleCreateTodo_unfold handleUpdateTodo_unfold Let_def
      handleCreateTodo_mockTodos handleUpdateTodo_mockTodos handleDeleteTodo_mockTodos
      rejected_store_unchanged)

theorem failed_mutation_leaves_collection_witness:
  "fst (createTodo True 1760000000000 1760000000000 1760000000000
          \<lparr>title_c = ascii ''Buy milk'', description_c = None\<rparr> (mockTodos World_loaded)) =
     Inl \<lparr>message_e = ascii ''Failed to create todo. Please try again.'', code = CREATE_ERROR\<rparr>
   \<and> todos (snd (handleCreateTodo True 1760000000000 1760000000000 1760000000000
          \<lparr>title_c = ascii ''Buy milk'', description_c = None\<rparr> World_loaded)) =
       [todo_3, todo_1, todo_2]
   \<and> fst (updateTodo False 1760000000000 (ascii ''nonexistent-id'')
          \<lparr>title_u = None, description_u = Absent, completed_u = Some True\<rparr>
          (mockTodos World_loaded)) =
     Inl \<lparr>message_e = ascii ''Todo not found'', code = NOT_FOUND\<rparr>
   \<and> todos (snd (handleUpdateTodo False 1760000000000 (ascii ''nonexistent-id'')
          \<lparr>title_u = None, description_u = Absent, completed_u = Some True\<rparr> World_loaded)) =
       [todo_3, todo_1, todo_2]
   \<and> fst (deleteTodo False (ascii ''nonexistent-id'') (mockTodos World_loaded)) =
     Inl \<lparr>message_e = ascii ''Todo not found'', code = NOT_FOUND\<rparr>
   \<and> todos (handleDeleteTodo False (ascii ''nonexistent-id'') World_loaded) =
       [todo_3, todo_1, todo_2]"
proof -
  let ?cin = "\<lparr>title_c = ascii ''Buy milk'', description_c = None\<rparr>"
  let ?uin = "\<lparr>title_u = None, description_u = Absent, completed_u = Some True\<rparr>"
  let ?ce = "\<lparr>message_e = ascii ''Failed to create todo. Please try again.'',
              code = CREATE_ERROR\<rparr>"
  let ?nf = "\<lparr>message_e = ascii ''Todo not found'', code = NOT_FOUND\<rparr>"
  have 1: "fst (createTodo True 1760000000000 1760000000000 1760000000000 ?cin
             (mockTodos World_loaded)) = Inl ?ce"
    by (simp add: createTodo_def)
  have 2: "fst (updateTodo False 1760000000000 (ascii ''nonexistent-id'') ?uin
             (mockTodos World_loaded)) = Inl ?nf"
    by (simp add: updateTodo_def findIndex_def)
  have 3: "fst (deleteTodo False (ascii ''nonexistent-id'') (mockTodos World_loaded)) = Inl ?nf"
    by (simp add: deleteTodo_def findIndex_def)
  from 1 failed_mutation_leaves_collection [where fl = True and a = 1760000000000 and b = 1760000000000
      and c = 1760000000000 and cinput = ?cin and w = World_loaded and e = ?ce]
  have "todos (snd (handleCreateTodo True 1760000000000 1760000000000 1760000000000
          ?cin World_loaded)) = [todo_3, todo_1, todo_2]" by simp
  moreover from 2 failed_mutation_leaves_collection [where fl = False and now = 1760000000000
      and i = "ascii ''nonexistent-id''" and input = ?uin and w = World_loaded and e = ?nf]
  have "todos (snd (handleUpdateTodo False 1760000000000 (ascii ''nonexistent-id'')
          ?uin World_loaded)) = [todo_3, todo_1, todo_2]" by simp
  moreover from 3 failed_mutation_leaves_collection [where fl = False and i = "ascii ''nonexistent-id''"
      and w = World_loaded and e = ?nf]
  have "todos (handleDeleteTodo False (ascii ''nonexistent-id'') World_loaded) =
          [todo_3, todo_1, todo_2]" by simp
  ultimately show ?thesis using 1 2 3 by simp
qed

section \<open>Every operation settles with no operation in flight\<close>

text \<open>
  C5. After the handler of a create, an update, a delete or a bulk delete has settled,
  \<open>loadingState\<close> is \<open>{isLoading: false}\<close>, whether the backend fulfilled or rejected
  the request; the handlers do not touch \<open>isInitialLoading\<close>. The fetch clears
  \<open>isInitialLoading\<close> on both outcomes and does not touch \<open>loadingState\<close>. A submit
  of the entry form that is rejected for its empty title changes nothing. So each
  operation, started with no operation in flight, settles with none in flight.
\<close>

theorem descriptor_reset:
  "(\<not> isInitialLoading w \<longrightarrow>
      idle (snd (handleCreateTodo fl a b c cinput w))
      \<and> idle (snd (handleUpdateTodo fl now i input w))
      \<and> idle (handleDeleteTodo fl i w)
      \<and> idle (handleBulkDelete fls w))
   \<and> (loadingState w = notLoading \<longrightarrow> idle (fetchTodos fl w))
   \<and> (idle w \<longrightarrow> idle (snd (handleSubmit (handleCreateTodo fl a b c) form w)))"
proof -
  have "idle (snd (handleSubmit (handleCreateTodo fl a b c) form w))" if "idle w"
  proof (cases "trim (title_f form) = []")
    case True
    with that show ?thesis by (simp add: handleSubmit_def)
  next
    case False
    let ?input = "\<lparr>title_c = trim (title_f form),
                   description_c = (if trim (description_f form) = [] then None
                                    else Some (trim (description_f form)))\<rparr>"
    have "snd (handleSubmit (handleCreateTodo fl a b c) form w) =
            snd (handleCreateTodo fl a b c ?input w)"
      using False by (simp add: handleSubmit_def split: prod.splits option.splits)
    with that show ?thesis
      by (simp add: idle_def handlers_loadingState handlers_isInitialLoading)
  qed
  then show ?thesis
    by (simp add: idle_def handlers_loadingState handlers_isInitialLoading)
qed

theorem descriptor_reset_witness:
  "idle World_loaded
   \<and> idle (snd (handleCreateTodo True 1760000000000 1760000000000 1760000000000
               \<lparr>title_c = ascii ''Buy milk'', description_c = None\<rparr> World_loaded))
   \<and> idle (snd (handleCreateTodo False 1760000000000 1760000000000 1760000000000
               \<lparr>title_c = ascii ''Buy milk'', description_c = None\<rparr> World_loaded))
   \<and> idle (snd (handleUpdateTodo False 1760000000000 (ascii ''2'')
               \<lparr>title_u = None, description_u = Absent, completed_u = Some False\<rparr>
               World_loaded))
   \<and> idle (handleDeleteTodo False (ascii ''nonexistent-id'') World_loaded)
   \<and> idle (handleBulkDelete (\<lambda>k. False) World_loaded)
   \<and> idle (fetchTodos True World_loaded)
   \<and> idle (snd (handleSubmit
               (handleCreateTodo False 1760000000000 1760000000000 1760000000000)
               \<lparr>title_f = ascii ''  '', description_f = [], isExpanded = False\<rparr>
               World_loaded))"
proof -
  let ?cin = "\<lparr>title_c = ascii ''Buy milk'', description_c = None\<rparr>"
  let ?uin = "\<lparr>title_u = None, description_u = Absent, completed_u = Some False\<rparr>"
  have 0: "idle World_loaded" by (simp add: idle_def)
  have 1: "\<not> isInitialLoading World_loaded" by simp
  have 2: "loadingState World_loaded = notLoading" by simp
  note r = descriptor_reset [where w = World_loaded and a = 1760000000000 and b = 1760000000000
      and c = 1760000000000 and cinput = ?cin and now = 1760000000000]
  from 1 r [where fl = True]
  have "idle (snd (handleCreateTodo True 1760000000000 1760000000000 1760000000000
                 ?cin World_loaded))" by blast
  moreover from 1 r [where fl = False and i = "ascii ''2''" and input = ?uin]
  have "idle (snd (handleCreateTodo False 1760000000000 1760000000000 1760000000000
                 ?cin World_loaded))"
    and "idle (snd (handleUpdateTodo False 1760000000000 (ascii ''2'') ?uin World_loaded))"
    by blast+
  moreover from 1 r [where fl = False and i = "ascii ''nonexistent-id''"
      and fls = "\<lambda>k. False"]
  have "idle (handleDeleteTodo False (ascii ''nonexistent-id'') World_loaded)"
    and "idle (handleBulkDelete (\<lambda>k. False) World_loaded)"
    by blast+
  moreover from 2 r [where fl = True]
  have "idle (fetchTodos True World_loaded)" by blast
  moreover from 0 r [where fl = False
      and form = "\<lparr>title_f = ascii ''  '', description_f = [], isExpanded = False\<rparr>"]
  have "idle (snd (handleSubmit
               (handleCreateTodo False 1760000000000 1760000000000 1760000000000)
               \<lparr>title_f = ascii ''  '', description_f = [], isExpanded = False\<rparr>
               World_loaded))" by blast
  ultimately show ?thesis using 0 by simp
qed

section \<open>The collection is shown newest first\<close>

text \<open>
  C6. The page shows the collection in the order of the array. After a fetch that the
  backend fulfilled, the collection is the backend's tasks, each once, sorted by
  \<open>createdAt\<close> descending. After a create that the backend fulfilled, the returned task
  is the head of the collection and the rest is the collection before; the result is
  sorted by \<open>createdAt\<close> descending when the collection before was and none of its
  tasks was created later than the new one.
\<close>

theorem display_order_sorted:
  "(getAllTodos fl (mockTodos w) = Inr response \<longrightarrow>
      todos (fetchTodos fl w) = data response
      \<and> sorted_wrt (\<lambda>x y. createdAt y \<le> createdAt x) (todos (fetchTodos fl w))
      \<and> mset (todos (fetchTodos fl w)) = mset (mockTodos w))
   \<and> (fst (createTodo fl now_id now_c now_u input (mockTodos w)) = Inr response'
      \<and> sorted_wrt (\<lambda>x y. createdAt y \<le> createdAt x) (todos w)
      \<and> (\<forall>t \<in> set (todos w). createdAt t \<le> now_c) \<longrightarrow>
      todos (snd (handleCreateTodo fl now_id now_c now_u input w)) = data response' # todos w
      \<and> createdAt (data response') = now_c
      \<and> sorted_wrt (\<lambda>x y. createdAt y \<le> createdAt x)
           (todos (snd (handleCreateTodo fl now_id now_c now_u input w))))"
proof (intro conjI impI)
  assume r: "getAllTodos fl (mockTodos w) = Inr response"
  then have d: "data response = sort_cmp (\<lambda>a b. createdAt b - createdAt a) (mockTodos w)"
    by (auto simp: getAllTodos_def split: if_splits)
  show 1: "todos (fetchTodos fl w) = data response"
    using r by (simp add: fetchTodos_todos)
  show "sorted_wrt (\<lambda>x y. createdAt y \<le> createdAt x) (todos (fetchTodos fl w))"
    unfolding 1 d by (rule sorted_sort_cmp_createdAt)
  show "mset (todos (fetchTodos fl w)) = mset (mockTodos w)"
    unfolding 1 d by simp
next
  assume a: "fst (createTodo fl now_id now_c now_u input (mockTodos w)) = Inr response'
      \<and> sorted_wrt (\<lambda>x y. createdAt y \<le> createdAt x) (todos w)
      \<and> (\<forall>t \<in> set (todos w). createdAt t \<le> now_c)"
  then show 2: "todos (snd (handleCreateTodo fl now_id now_c now_u input w)) =
      data response' # todos w"
    by (simp add: handleCreateTodo_todos)
  from a show 3: "createdAt (data response') = now_c"
    by (auto simp: createTodo_def Let_def split: if_splits)
  from a show "sorted_wrt (\<lambda>x y. createdAt y \<le> createdAt x)
           (todos (snd (handleCreateTodo fl now_id now_c now_u input w)))"
    unfolding 2 by (simp add: 3)
qed

theorem display_order_sorted_witness:
  "todos (fetchTodos False World_init) = [todo_3, todo_1, todo_2]
   \<and> sorted_wrt (\<lambda>x y. createdAt y \<le> createdAt x) (todos (fetchTodos False World_init))
   \<and> list_all (\<lambda>t. createdAt t \<le> 1760000000001) (todos World_loaded)
   \<and> todos (snd (handleCreateTodo False 1760000000000 1760000000001 1760000000002
         \<lparr>title_c = ascii ''Buy milk'', description_c = None\<rparr> World_loaded)) =
       \<lparr>id_todo = ascii ''1760000000000'', title = ascii ''Buy milk'',
        description = Some [], completed = False, createdAt = 1760000000001,
        updatedAt = 1760000000002\<rparr> # [todo_3, todo_1, todo_2]
   \<and> sorted_wrt (\<lambda>x y. createdAt y \<le> createdAt x)
       (todos (snd (handleCreateTodo False 1760000000000 1760000000001 1760000000002
         \<lparr>title_c = ascii ''Buy milk'', description_c = None\<rparr> World_loaded)))"
proof -
  let ?cin = "\<lparr>title_c = ascii ''Buy milk'', description_c = None\<rparr>"
  let ?new = "\<lparr>id_todo = ascii ''1760000000000'', title = ascii ''Buy milk'',
        description = Some [], completed = False, createdAt = 1760000000001,
        updatedAt = 1760000000002\<rparr>"
  have 1: "getAllTodos False (mockTodos World_init) =
      Inr \<lparr>data = [todo_3, todo_1, todo_2], message = ascii ''Todos fetched successfully'',
           success = True\<rparr>"
    by (simp add: getAllTodos_def World_init_def mockTodos_init_def)
  have 2: "fst (createTodo False 1760000000000 1760000000001 1760000000002 ?cin
      (mockTodos World_loaded)) =
      Inr \<lparr>data = ?new, message = ascii ''Todo created successfully'', success = True\<rparr>"
    by (simp add: createTodo_def Let_def trim_def isWhiteSpace_def toString_def digits10.simps)
  have 3: "sorted_wrt (\<lambda>x y. createdAt y \<le> createdAt x) (todos World_loaded)" by simp
  have 4: "\<forall>t \<in> set (todos World_loaded). createdAt t \<le> 1760000000001" by simp
  note t = display_order_sorted [where w = World_init and fl = False, THEN conjunct1, rule_format, OF 1]
  note u = display_order_sorted [where w = World_loaded and fl = False, THEN conjunct2, rule_format,
      OF conjI [OF 2 conjI [OF 3 4]]]
  from t u 4 show ?thesis by simp
qed

section \<open>The bulk delete removes the completed tasks\<close>

text \<open>
  C7. \<open>handleBulkDelete\<close> takes the completed tasks of the collection at the call and
  sends one delete request for the id of each, in their order. When the backend fulfils
  every one of them, the collection afterwards is the tasks that were not completed, in
  their order: every task that was not completed remains and no completed task does.
  Where no two tasks of the collection share an id, the tasks removed are exactly those
  with an id of the snapshot.
\<close>

theorem bulk_delete_removes_completed:
  assumes "list_all fulfilled
             (fst (api_deleteTodos fls 0 (map id_todo (filter completed (todos w))) w))"
  shows "calls (handleBulkDelete fls w) =
           calls w @ map DeleteTodo (map id_todo (filter completed (todos w)))
    \<and> todos (handleBulkDelete fls w) = filter (\<lambda>todo. \<not> completed todo) (todos w)
    \<and> (distinct (map id_todo (todos w)) \<longrightarrow>
         todos (handleBulkDelete fls w) =
           filter (\<lambda>todo. id_todo todo \<notin> set (map id_todo (filter completed (todos w))))
             (todos w))"
proof -
  let ?w = "w\<lparr>loadingState :=
                \<lparr>isLoading = True, operation = Some Op_delete, targetId = None\<rparr>\<rparr>"
  let ?ids = "map id_todo (filter completed (todos w))"
  have "fst (api_deleteTodos fls 0 ?ids ?w) = fst (api_deleteTodos fls 0 ?ids w)"
    by (rule api_deleteTodos_backend_only [THEN conjunct1]) simp
  with assms have ok: "list_all fulfilled (fst (api_deleteTodos fls 0 ?ids ?w))" by simp
  have c: "calls (handleBulkDelete fls w) = calls w @ map DeleteTodo ?ids"
    by (simp add: handleBulkDelete_unfold Let_def)
  have t: "todos (handleBulkDelete fls w) = filter (\<lambda>todo. \<not> completed todo) (todos w)"
    using ok by (simp add: handleBulkDelete_todos)
  have "filter (\<lambda>todo. \<not> completed todo) (todos w) =
          filter (\<lambda>todo. id_todo todo \<notin> set ?ids) (todos w)"
    if d: "distinct (map id_todo (todos w))"
  proof (rule filter_cong [OF refl])
    fix x assume x: "x \<in> set (todos w)"
    show "(\<not> completed x) = (id_todo x \<notin> set ?ids)"
    proof
      assume nc: "\<not> completed x"
      show "id_todo x \<notin> set ?ids"
      proof
        assume "id_todo x \<in> set ?ids"
        then obtain y where y: "y \<in> set (todos w)" "completed y" "id_todo y = id_todo x"
          by auto
        from d x y(1,3) have "y = x" by (simp add: distinct_map inj_on_def)
        with nc y(2) show False by simp
      qed
    next
      assume "id_todo x \<notin> set ?ids"
      with x show "\<not> completed x" by auto
    qed
  qed
  with c t show ?thesis by simp
qed

theorem bulk_delete_removes_completed_witness:
  "list_all fulfilled
     (fst (api_deleteTodos (\<lambda>k. False) 0
        [ascii ''a'']
        (World_loaded\<lparr>mockTodos := [\<lparr>id_todo = ascii ''b'', title = ascii ''B'',
              description = None, completed = False, createdAt = 1, updatedAt = 1\<rparr>,
            \<lparr>id_todo = ascii ''a'', title = ascii ''A'',
              description = None, completed = True, createdAt = 2, updatedAt = 3\<rparr>],
          todos := [\<lparr>id_todo = ascii ''a'', title = ascii ''A'',
              description = None, completed = True, createdAt = 2, updatedAt = 3\<rparr>,
            \<lparr>id_todo = ascii ''b'', title = ascii ''B'',
              description = None, completed = False, createdAt = 1, updatedAt = 1\<rparr>]\<rparr>)))
   \<and> todos (handleBulkDelete (\<lambda>k. False)
        (World_loaded\<lparr>mockTodos := [\<lparr>id_todo = ascii ''b'', title = ascii ''B'',
              description = None, completed = False, createdAt = 1, updatedAt = 1\<rparr>,
            \<lparr>id_todo = ascii ''a'', title = ascii ''A'',
              description = None, completed = True, createdAt = 2, updatedAt = 3\<rparr>],
          todos := [\<lparr>id_todo = ascii ''a'', title = ascii ''A'',
              description = None, completed = True, createdAt = 2, updatedAt = 3\<rparr>,
            \<lparr>id_todo = ascii ''b'', title = ascii ''B'',
              description = None, completed = False, createdAt = 1, updatedAt = 1\<rparr>]\<rparr>)) =
       [\<lparr>id_todo = ascii ''b'', title = ascii ''B'',
              description = None, completed = False, createdAt = 1, updatedAt = 1\<rparr>]
   \<and> calls (handleBulkDelete (\<lambda>k. False) World_loaded) = [GetAllTodos, DeleteTodo (ascii ''2'')]
   \<and> todos (handleBulkDelete (\<lambda>k. False) World_loaded) = [todo_3, todo_1]"
proof -
  let ?A = "\<lparr>id_todo = ascii ''a'', title = ascii ''A'',
              description = None, completed = True, createdAt = 2, updatedAt = 3\<rparr>"
  let ?B = "\<lparr>id_todo = ascii ''b'', title = ascii ''B'',
              description = None, completed = False, createdAt = 1, updatedAt = 1\<rparr>"
  let ?w = "World_loaded\<lparr>mockTodos := [?B, ?A], todos := [?A, ?B]\<rparr>"
  have 1: "list_all fulfilled (fst (api_deleteTodos (\<lambda>k. False) 0
      (map id_todo (filter completed (todos ?w))) ?w))"
    by (simp add: api_deleteTodo_def deleteTodo_def findIndex_def fulfilled_def)
  have 2: "list_all fulfilled (fst (api_deleteTodos (\<lambda>k. False) 0
      (map id_todo (filter completed (todos World_loaded))) World_loaded))"
    by (simp add: api_deleteTodo_def deleteTodo_def findIndex_def fulfilled_def)
  from bulk_delete_removes_completed [OF 1] bulk_delete_removes_completed [OF 2] 1
  show ?thesis by simp
qed

section \<open>A delete removes the target and nothing else\<close>

text \<open>
  C8. When the backend fulfils \<open>deleteTodo i\<close>, the collection of the page afterwards is
  the collection before without the tasks whose id is \<open>i\<close>: no task with that id is
  left, and the other tasks are the same records in the same order. The backend's array
  loses one task with that id and keeps every task with another id. This holds in
  particular for the id of a task \<open>T\<close> of the collection.
\<close>

theorem delete_removes_only_target:
  assumes "fst (deleteTodo fl i (mockTodos w)) = Inr response"
  shows "todos (handleDeleteTodo fl i w) = filter (\<lambda>todo. id_todo todo \<noteq> i) (todos w)
    \<and> i \<notin> id_todo ` set (todos (handleDeleteTodo fl i w))
    \<and> filter (\<lambda>todo. id_todo todo \<noteq> i) (todos (handleDeleteTodo fl i w)) =
        filter (\<lambda>todo. id_todo todo \<noteq> i) (todos w)
    \<and> filter (\<lambda>todo. id_todo todo \<noteq> i) (mockTodos (handleDeleteTodo fl i w)) =
        filter (\<lambda>todo. id_todo todo \<noteq> i) (mockTodos w)
    \<and> length (mockTodos (handleDeleteTodo fl i w)) + 1 = length (mockTodos w)"
proof -
  from assms have fl: "\<not> fl" and found: "findIndex (\<lambda>todo. id_todo todo = i) (mockTodos w) \<noteq> - 1"
    by (auto simp: deleteTodo_def Let_def split: if_splits)
  have local: "todos (handleDeleteTodo fl i w) = filter (\<lambda>todo. id_todo todo \<noteq> i) (todos w)"
    using assms by (simp add: handleDeleteTodo_todos)
  have store: "mockTodos (handleDeleteTodo fl i w) =
      splice1 (findIndex (\<lambda>todo. id_todo todo = i) (mockTodos w)) (mockTodos w)"
    using assms fl found by (simp add: handleDeleteTodo_unfold Let_def deleteTodo_def)
  have len: "length (splice1 (findIndex (\<lambda>todo. id_todo todo = i) (mockTodos w)) (mockTodos w)) + 1
      = length (mockTodos w)"
    using findIndex_found(1) [OF found] by (simp add: splice1_def)
  show ?thesis
    using local store len filter_splice1_findIndex [OF found] by auto
qed

theorem delete_removes_only_target_witness:
  "fst (deleteTodo False (ascii ''1'') (mockTodos World_loaded)) =
     Inr \<lparr>data = (), message = ascii ''Todo deleted successfully'', success = True\<rparr>
   \<and> todo_1 \<in> set (todos World_loaded)
   \<and> todos (handleDeleteTodo False (ascii ''1'') World_loaded) = [todo_3, todo_2]
   \<and> mockTodos (handleDeleteTodo False (ascii ''1'') World_loaded) = [todo_2, todo_3]"
proof -
  have 1: "fst (deleteTodo False (ascii ''1'') (mockTodos World_loaded)) =
     Inr \<lparr>data = (), message = ascii ''Todo deleted successfully'', success = True\<rparr>"
    by (simp add: deleteTodo_def findIndex_def)
  have 2: "mockTodos (handleDeleteTodo False (ascii ''1'') World_loaded) = [todo_2, todo_3]"
    by (simp add: handleDeleteTodo_unfold deleteTodo_def findIndex_def splice1_def Let_def)
  from delete_removes_only_target [OF 1] 2 show ?thesis using 1 by simp
qed

section \<open>The visible tasks partition the collection\<close>

text \<open>
  C9. For every collection, the list shown under the filter \<open>all\<close> is the collection,
  under \<open>active\<close> its tasks that are not completed and under \<open>completed\<close> its
  completed tasks, each in the order of the collection. The active and the completed
  tasks have no task in common, together they are all tasks, and each task occurs in
  the two lists as often as in the collection.
\<close>

theorem filteredTodos_partition:
  "filteredTodos ts Filter_ALL = ts
   \<and> filteredTodos ts Filter_ACTIVE = filter (\<lambda>t. \<not> completed t) ts
   \<and> filteredTodos ts Filter_COMPLETED = filter completed ts
   \<and> set (filteredTodos ts Filter_ACTIVE) \<inter> set (filteredTodos ts Filter_COMPLETED) = {}
   \<and> set (filteredTodos ts Filter_ACTIVE) \<union> set (filteredTodos ts Filter_COMPLETED) = set ts
   \<and> mset (filteredTodos ts Filter_ACTIVE) + mset (filteredTodos ts Filter_COMPLETED) = mset ts"
  by (auto simp: filteredTodos_def)

section \<open>A created task always has a description\<close>

text \<open>
  C10. When the backend fulfils \<open>createTodo\<close>, the description of the returned task is
  a string: the empty string when the input has no description, and the trimmed
  description otherwise, which is the empty string when the description is white space
  only. The task appended to the backend's array is the returned one.
\<close>

theorem created_description_defined:
  assumes "fst (createTodo fl now_id now_c now_u input store) = Inr response"
  shows "description (data response) =
           Some (case description_c input of None \<Rightarrow> [] | Some d \<Rightarrow> trim d)
    \<and> description (data response) \<noteq> None
    \<and> snd (createTodo fl now_id now_c now_u input store) = store @ [data response]"
  using assms by (auto simp: createTodo_def Let_def split: if_splits option.splits)

theorem created_description_defined_witness:
  "fst (createTodo False 1760000000000 1760000000001 1760000000002
        \<lparr>title_c = ascii '' Buy milk'', description_c = Some (ascii ''   '')\<rparr> []) =
      Inr \<lparr>data = \<lparr>id_todo = ascii ''1760000000000'', title = ascii ''Buy milk'',
        description = Some [], completed = False, createdAt = 1760000000001,
        updatedAt = 1760000000002\<rparr>,
      message = ascii ''Todo created successfully'', success = True\<rparr>
   \<and> description (data (projr (fst (createTodo False 1760000000000 1760000000001 1760000000002
        \<lparr>title_c = ascii ''Call'', description_c = Some (ascii '' the bank '')\<rparr> [])))) =
      Some (ascii ''the bank'')
   \<and> description (data (projr (fst (createTodo False 1760000000000 1760000000001 1760000000002
        \<lparr>title_c = ascii ''Call'', description_c = None\<rparr> [])))) = Some []"
proof -
  let ?r = "\<lambda>d. \<lparr>data = \<lparr>id_todo = ascii ''1760000000000'', title = ascii ''Call'',
        description = Some d, completed = False, createdAt = 1760000000001,
        updatedAt = 1760000000002\<rparr>,
      message = ascii ''Todo created successfully'', success = True\<rparr>"
  have 1: "fst (createTodo False 1760000000000 1760000000001 1760000000002
        \<lparr>title_c = ascii '' Buy milk'', description_c = Some (ascii ''   '')\<rparr> []) =
      Inr \<lparr>data = \<lparr>id_todo = ascii ''1760000000000'', title = ascii ''Buy milk'',
        description = Some [], completed = False, createdAt = 1760000000001,
        updatedAt = 1760000000002\<rparr>,
      message = ascii ''Todo created successfully'', success = True\<rparr>"
    by (simp add: createTodo_def Let_def trim_def isWhiteSpace_def toString_def digits10.simps)
  have 2: "fst (createTodo False 1760000000000 1760000000001 1760000000002
        \<lparr>title_c = ascii ''Call'', description_c = Some (ascii '' the bank '')\<rparr> []) =
      Inr (?r (ascii ''the bank''))"
    by (simp add: createTodo_def Let_def trim_def isWhiteSpace_def toString_def digits10.simps)
  have 3: "fst (createTodo False 1760000000000 1760000000001 1760000000002
        \<lparr>title_c = ascii ''Call'', description_c = None\<rparr> []) = Inr (?r [])"
    by (simp add: createTodo_def Let_def trim_def isWhiteSpace_def toString_def digits10.simps)
  have t: "trim (ascii '' the bank '') = ascii ''the bank''"
    by (simp add: trim_def isWhiteSpace_def)
  from created_description_defined [OF 2] created_description_defined [OF 3] 1 t
  show ?thesis unfolding 2 3 by simp
qed

end
